theory Spec2Isabelle
  imports Complex_Main "HOL-Library.Sublist"
begin

section \<open>Python values\<close>

subsection \<open>Strings\<close>

text \<open>
  A Python \<open>str\<close> is a sequence of Unicode code points, so it is modelled as a list of
  natural numbers. \<open>str\<close> turns an (ASCII) HOL literal into such a string.
\<close>

type_synonym pystr = "nat list"

definition str :: "string \<Rightarrow> pystr" where
  "str s = map of_char s"

text \<open>\<open>sub in s\<close> on strings: \<open>sub\<close> occurs in \<open>s\<close> as a contiguous substring.\<close>

fun py_in :: "pystr \<Rightarrow> pystr \<Rightarrow> bool" where
  "py_in sub [] = (sub = [])"
| "py_in sub (c # cs) = (prefix sub (c # cs) \<or> py_in sub cs)"

text \<open>
  The first (leftmost) occurrence of \<open>sep\<close> in a string: the text before it and the text
  after it, or \<open>None\<close> when \<open>sep\<close> does not occur.
\<close>

fun split_at_first :: "pystr \<Rightarrow> pystr \<Rightarrow> (pystr \<times> pystr) option" where
  "split_at_first sep [] = (if sep = [] then Some ([], []) else None)"
| "split_at_first sep (c # cs) =
     (if prefix sep (c # cs) then Some ([], drop (length sep) (c # cs))
      else map_option (\<lambda>(a, b). (c # a, b)) (split_at_first sep cs))"

text \<open>
  \<open>s.split(sep, 1)\<close>: at most one split, at the first occurrence of \<open>sep\<close>. Python raises
  \<open>ValueError\<close> for an empty separator; both call sites pass a non-empty literal.
\<close>

definition py_split1 :: "pystr \<Rightarrow> pystr \<Rightarrow> pystr list" where
  "py_split1 s sep = (case split_at_first sep s of None \<Rightarrow> [s] | Some (a, b) \<Rightarrow> [a, b])"

text \<open>
  \<open>str.isspace\<close> on one code point, as CPython's table of Unicode whitespace has it
  (U+0009..U+000D, U+001C..U+0020, U+0085, U+00A0, U+1680, U+2000..U+200A, U+2028, U+2029,
  U+202F, U+205F, U+3000).
\<close>

definition py_isspace :: "nat \<Rightarrow> bool" where
  "py_isspace c \<longleftrightarrow>
     (9 \<le> c \<and> c \<le> 13) \<or> (28 \<le> c \<and> c \<le> 32) \<or> c = 133 \<or> c = 160 \<or> c = 5760 \<or>
     (8192 \<le> c \<and> c \<le> 8202) \<or> c = 8232 \<or> c = 8233 \<or> c = 8239 \<or> c = 8287 \<or> c = 12288"

text \<open>\<open>s.strip()\<close>: leading and trailing whitespace removed.\<close>

definition py_strip :: "pystr \<Rightarrow> pystr" where
  "py_strip s = dropWhile py_isspace (rev (dropWhile py_isspace (rev s)))"

text \<open>\<open>sep.join(xs)\<close>.\<close>

fun py_join :: "pystr \<Rightarrow> pystr list \<Rightarrow> pystr" where
  "py_join sep [] = []"
| "py_join sep [x] = x"
| "py_join sep (x # y # ys) = x @ sep @ py_join sep (y # ys)"

text \<open>\<open>s.split(c)\<close> for a one-character separator \<open>c\<close>: every occurrence splits.\<close>

fun py_split_char :: "nat \<Rightarrow> pystr \<Rightarrow> pystr list" where
  "py_split_char c [] = [[]]"
| "py_split_char c (x # xs) =
     (if x = c then [] # py_split_char c xs
      else (case py_split_char c xs of
              [] \<Rightarrow> [[x]]
            | w # ws \<Rightarrow> (x # w) # ws))"

subsection \<open>The sentinel markers and the extraction of the final result\<close>

definition RESULT_START :: pystr where
  "RESULT_START = str ''---SUBAGENT-RESULT-START---''"

definition RESULT_END :: pystr where
  "RESULT_END = str ''---SUBAGENT-RESULT-END---''"

text \<open>
  \<open>run_gemini_backend\<close>, the block under \<open># Extract result\<close>:
  \<^verbatim>\<open>
    final_output = output_str
    if "---SUBAGENT-RESULT-START---" in output_str:
        parts = output_str.split("---SUBAGENT-RESULT-START---", 1)
        if len(parts) > 1:
            result_part = parts[1].split("---SUBAGENT-RESULT-END---", 1)
            final_output = result_part[0].strip()
  \<close>
  \<open>py_split1\<close> never returns the empty list, so \<open>result_part[0]\<close> is always defined.
\<close>

definition extract_result :: "pystr \<Rightarrow> pystr" where
  "extract_result output_str =
     (if py_in RESULT_START output_str then
        (let parts = py_split1 output_str RESULT_START in
         if length parts > 1 then
           (let result_part = py_split1 (parts ! 1) RESULT_END in py_strip (result_part ! 0))
         else output_str)
      else output_str)"


subsection \<open>JSON values, library functions and exceptions\<close>

text \<open>
  What \<open>json.loads\<close> returns: \<open>None\<close>, a bool, an int, a float, a str, a list, or a dict
  with string keys. A dict is an association list in insertion order whose keys are
  distinct (the parser has already merged duplicate keys). Python floats are kept
  abstract: nothing here computes with them.
\<close>

typedecl pyfloat

datatype json =
    JNull
  | JBool bool
  | JInt int
  | JFloat pyfloat
  | JStr pystr
  | JArr "json list"
  | JObj "(pystr \<times> json) list"

text \<open>
  The functions of Python's standard library that the scripts call and that are not
  modelled here are parameters of the model:
  \<^item> \<open>json_loads\<close>: \<open>json.loads\<close>; \<open>None\<close> when it raises (the only caller swallows the
    exception);
  \<^item> \<open>json_dumps\<close>: \<open>json.dumps(_, indent=2)\<close>;
  \<^item> \<open>str_of\<close>: how an f-string formats a value that is not a string.
\<close>

record pylib =
  json_loads :: "pystr \<Rightarrow> json option"
  json_dumps :: "json \<Rightarrow> pystr"
  str_of :: "json \<Rightarrow> pystr"

text \<open>\<open>f"{v}"\<close>: a string is inserted as it is.\<close>

definition py_format :: "pylib \<Rightarrow> json \<Rightarrow> pystr" where
  "py_format lib v = (case v of JStr s \<Rightarrow> s | _ \<Rightarrow> str_of lib v)"

text \<open>\<open>type(v).__name__\<close>, as it appears in the message of an \<open>AttributeError\<close>.\<close>

fun py_type_name :: "json \<Rightarrow> pystr" where
  "py_type_name JNull = str ''NoneType''"
| "py_type_name (JBool _) = str ''bool''"
| "py_type_name (JInt _) = str ''int''"
| "py_type_name (JFloat _) = str ''float''"
| "py_type_name (JStr _) = str ''str''"
| "py_type_name (JArr _) = str ''list''"
| "py_type_name (JObj _) = str ''dict''"

subsection \<open>Paths\<close>

text \<open>
  A \<open>pathlib\<close> path of the POSIX flavour: its anchor (empty for a relative path, one or
  two slashes for an absolute one) and its components. \<open>pathlib\<close> drops empty components
  and \<open>.\<close> components when it parses a string, and keeps \<open>..\<close>.
\<close>

datatype path = Path (anchor: pystr) (parts: "pystr list")

definition parse_parts :: "pystr \<Rightarrow> pystr list" where
  "parse_parts s = filter (\<lambda>c. c \<noteq> [] \<and> c \<noteq> str ''.'') (py_split_char 47 s)"

definition parse_anchor :: "pystr \<Rightarrow> pystr" where
  "parse_anchor s =
     (if prefix (str ''//'') s \<and> \<not> prefix (str ''///'') s then str ''//''
      else if prefix (str ''/'') s then str ''/''
      else [])"

text \<open>\<open>p / s\<close> for a string \<open>s\<close>: an absolute \<open>s\<close> replaces \<open>p\<close>.\<close>

definition path_join :: "path \<Rightarrow> pystr \<Rightarrow> path" where
  "path_join p s =
     (if parse_anchor s \<noteq> [] then Path (parse_anchor s) (parse_parts s)
      else Path (anchor p) (parts p @ parse_parts s))"

text \<open>\<open>p.parent\<close>: the parent of an anchor, and of the empty relative path, is itself.\<close>

definition parent :: "path \<Rightarrow> path" where
  "parent p = Path (anchor p) (butlast (parts p))"

text \<open>\<open>str(p)\<close>.\<close>

definition path_str :: "path \<Rightarrow> pystr" where
  "path_str p =
     (if parts p = [] then (if anchor p = [] then str ''.'' else anchor p)
      else anchor p @ py_join (str ''/'') (parts p))"

subsection \<open>Exceptions\<close>

datatype oserr = ENOENT | EEXIST | ENOTDIR | EISDIR

text \<open>
  The exceptions (subclasses of \<open>Exception\<close>) that the modelled code can raise:
  \<open>KeyError\<close> with its key, \<open>AttributeError\<close> with its message, an \<open>OSError\<close> of the file
  system with the path it names, and \<open>Raised\<close> for whatever the subprocess machinery or
  a stream raises (spawn failure, broken pipe, timeout, decoding error), with its message.
\<close>

datatype exn =
    KeyError pystr
  | AttributeError pystr
  | OSError oserr path
  | Raised pystr

fun strerror :: "oserr \<Rightarrow> pystr" where
  "strerror ENOENT = str ''[Errno 2] No such file or directory''"
| "strerror EEXIST = str ''[Errno 17] File exists''"
| "strerror ENOTDIR = str ''[Errno 20] Not a directory''"
| "strerror EISDIR = str ''[Errno 21] Is a directory''"

text \<open>
  \<open>str(e)\<close>. A \<open>KeyError\<close> prints the \<open>repr\<close> of its key and an \<open>OSError\<close> the \<open>repr\<close> of
  its file name: the key or name between single quotes (code point 39), for one without
  quotes, backslashes or unprintable characters.
\<close>

fun exn_str :: "exn \<Rightarrow> pystr" where
  "exn_str (KeyError k) = [39] @ k @ [39]"
| "exn_str (AttributeError m) = m"
| "exn_str (OSError e p) = strerror e @ str '': '' @ [39] @ path_str p @ [39]"
| "exn_str (Raised m) = m"

definition no_attribute :: "json \<Rightarrow> string \<Rightarrow> exn" where
  "no_attribute v a =
     AttributeError ([39] @ py_type_name v @ [39] @
       str '' object has no attribute '' @ [39] @ str a @ [39])"

section \<open>The file system\<close>

text \<open>
  The file system maps a path to what is there: nothing, a directory, or a regular file
  with its text. Distinct paths name distinct files (no symbolic links; a relative path is
  looked up as it is written). A system call walks the path from its anchor: a missing
  ancestor gives \<open>ENOENT\<close> and an ancestor that is a file \<open>ENOTDIR\<close>.
\<close>

datatype node = Dir | File pystr

type_synonym filesys = "path \<Rightarrow> node option"

datatype stat = Found node | NoEnt | NotDir

fun walk :: "filesys \<Rightarrow> pystr \<Rightarrow> pystr list \<Rightarrow> pystr list \<Rightarrow> stat" where
  "walk fs a seen [] = (case fs (Path a seen) of None \<Rightarrow> NoEnt | Some n \<Rightarrow> Found n)"
| "walk fs a seen (c # cs) =
     (case fs (Path a seen) of
        None \<Rightarrow> NoEnt
      | Some (File _) \<Rightarrow> NotDir
      | Some Dir \<Rightarrow> walk fs a (seen @ [c]) cs)"

definition os_stat :: "filesys \<Rightarrow> path \<Rightarrow> stat" where
  "os_stat fs p = walk fs (anchor p) [] (parts p)"

text \<open>\<open>p.exists()\<close> and \<open>p.is_dir()\<close>: false when the system call fails.\<close>

definition exists :: "filesys \<Rightarrow> path \<Rightarrow> bool" where
  "exists fs p = (case os_stat fs p of Found _ \<Rightarrow> True | _ \<Rightarrow> False)"

definition is_dir :: "filesys \<Rightarrow> path \<Rightarrow> bool" where
  "is_dir fs p = (os_stat fs p = Found Dir)"

text \<open>\<open>p.is_file()\<close>.\<close>

definition is_file :: "filesys \<Rightarrow> path \<Rightarrow> bool" where
  "is_file fs p = (case os_stat fs p of Found (File _) \<Rightarrow> True | _ \<Rightarrow> False)"

text \<open>\<open>p.read_text(encoding="utf-8")\<close>.\<close>

definition read_text :: "filesys \<Rightarrow> path \<Rightarrow> exn + pystr" where
  "read_text fs p =
     (case os_stat fs p of
        Found (File s) \<Rightarrow> Inr s
      | Found Dir \<Rightarrow> Inl (OSError EISDIR p)
      | NoEnt \<Rightarrow> Inl (OSError ENOENT p)
      | NotDir \<Rightarrow> Inl (OSError ENOTDIR p))"

text \<open>
  \<open>open(p, "w")\<close> followed by writing \<open>s\<close> and closing (also \<open>p.write_text(s)\<close>): the file is
  created or truncated; its directory must exist.
\<close>

definition write_file :: "filesys \<Rightarrow> path \<Rightarrow> pystr \<Rightarrow> exn + filesys" where
  "write_file fs p s =
     (case os_stat fs p of
        Found (File _) \<Rightarrow> Inr (fs(p \<mapsto> File s))
      | Found Dir \<Rightarrow> Inl (OSError EISDIR p)
      | NotDir \<Rightarrow> Inl (OSError ENOTDIR p)
      | NoEnt \<Rightarrow>
          (if parts p \<noteq> [] \<and> is_dir fs (parent p) then Inr (fs(p \<mapsto> File s))
           else Inl (OSError ENOENT p)))"

text \<open>\<open>os.mkdir(p)\<close>.\<close>

definition os_mkdir :: "filesys \<Rightarrow> path \<Rightarrow> oserr + filesys" where
  "os_mkdir fs p =
     (case os_stat fs p of
        Found _ \<Rightarrow> Inl EEXIST
      | NotDir \<Rightarrow> Inl ENOTDIR
      | NoEnt \<Rightarrow>
          (if parts p \<noteq> [] \<and> is_dir fs (parent p) then Inr (fs(p \<mapsto> Dir))
           else Inl ENOENT))"

text \<open>
  \<open>p.mkdir(parents=True, exist_ok=True)\<close>, as \<open>pathlib\<close> writes it:
  \<^verbatim>\<open>
    try:
        os.mkdir(self, mode)
    except FileNotFoundError:
        if not parents or self.parent == self:
            raise
        self.parent.mkdir(parents=True, exist_ok=True)
        self.mkdir(mode, parents=False, exist_ok=exist_ok)
    except OSError:
        if not exist_ok or not self.is_dir():
            raise
  \<close>
  \<open>mkdir_exist_ok\<close> is the inner call with \<open>parents=False\<close>.
\<close>

definition mkdir_exist_ok :: "filesys \<Rightarrow> path \<Rightarrow> exn + filesys" where
  "mkdir_exist_ok fs p =
     (case os_mkdir fs p of
        Inr fs' \<Rightarrow> Inr fs'
      | Inl e \<Rightarrow>
          (if e = ENOENT then Inl (OSError ENOENT p)
           else (if is_dir fs p then Inr fs else Inl (OSError e p))))"

function mkdir_parents :: "filesys \<Rightarrow> path \<Rightarrow> exn + filesys" where
  "mkdir_parents fs p =
     (case os_mkdir fs p of
        Inr fs' \<Rightarrow> Inr fs'
      | Inl e \<Rightarrow>
          (if e = ENOENT then
             (if parent p = p then Inl (OSError ENOENT p)
              else (case mkdir_parents fs (parent p) of
                      Inl e' \<Rightarrow> Inl e'
                    | Inr fs1 \<Rightarrow> mkdir_exist_ok fs1 p))
           else (if is_dir fs p then Inr fs else Inl (OSError e p))))"
  by pat_completeness auto
termination
proof (relation "measure (\<lambda>(fs, p). length (parts p))")
  show "wf (measure (\<lambda>(fs, p). length (parts p)))" by simp
next
  fix fs :: filesys and p :: path and e :: oserr
  assume "parent p \<noteq> p"
  then have "parts p \<noteq> []"
    by (cases p) (auto simp: parent_def)
  then show "((fs, parent p), (fs, p)) \<in> measure (\<lambda>(fs, p). length (parts p))"
    by (simp add: parent_def)
qed

declare mkdir_parents.simps [simp del]


section \<open>The environment\<close>

text \<open>
  A child process is known by what the parent observes of it. Each iteration of the
  reading loop observes one event: \<open>Read line polled\<close> is what \<open>readline()\<close> returned
  (the empty string at end of file) and, when that line is empty, what \<open>poll()\<close>
  returned (\<open>None\<close> while the process runs, its exit code afterwards); \<open>Fault e\<close> is an
  exception raised inside the loop body (by \<open>readline\<close>, \<open>print\<close> or the log).
\<close>

datatype event = Read pystr "int option" | Fault exn

text \<open>
  \<open>subprocess.Popen(...)\<close> followed by \<open>stdin.write(prompt)\<close> and \<open>stdin.close()\<close>: the
  spawn fails, or the process is spawned and writing its input fails, or it runs and
  yields its events.
\<close>

datatype popen_result = PopenRaises exn | StdinRaises exn | Running "event list"

text \<open>
  \<open>subprocess.run(..., capture_output=True, timeout=600)\<close>: the spawn fails, or the child
  is spawned and the call raises (the timeout expired), or the child completes with its
  standard output, its standard error and its exit code.
\<close>

datatype run_result = RunNotSpawned exn | RunRaises exn | Completed pystr pystr int

text \<open>
  Everything the scripts read from outside: the working directory, how \<open>resolve()\<close> makes
  a path absolute, the two random identifiers (\<open>uuid.uuid4().hex\<close>: one for the log file,
  one for the artifacts directory named in the Gemini prompt), the formatted time, the
  clock before and after the backend ran, and the behaviour of a child process given its
  command, its working directory and its input.
\<close>

record env =
  cwd :: path
  resolve :: "path \<Rightarrow> path"
  subagent_uuid :: pystr
  artifact_uuid :: pystr
  timestamp :: pystr
  time_start :: real
  time_end :: real
  popen :: "pystr list \<Rightarrow> path \<Rightarrow> pystr \<Rightarrow> popen_result"
  run :: "pystr list \<Rightarrow> path \<Rightarrow> pystr \<Rightarrow> run_result"

text \<open>
  The state the scripts change: the file system, and the number of child processes
  spawned so far. A child is modelled by its output and exit status only: what it does to
  the file system is outside the model. Console output is not part of the state, and a
  write to the open log file fails only inside the reading loop, as a \<open>Fault\<close>.
\<close>

record world =
  files :: filesys
  spawned :: nat

section \<open>config.py\<close>

definition agent_dir :: "path \<Rightarrow> path" where
  "agent_dir cur = path_join cur (str ''.agent'')"

text \<open>
  The loop of \<open>find_agent_root\<close>, with the number of iterations left (the source's
  variable \<open>curr\<close> is written \<open>cur\<close>):
  \<^verbatim>\<open>
    for _ in range(10):
        if (curr / ".agent").exists():
            return curr / ".agent"
        if (curr / "skills").exists() and (curr.parent / ".agent").exists():
             return curr.parent / ".agent"
        if curr.parent == curr:
            break
        curr = curr.parent
  \<close>
  \<open>None\<close> when the loop ends without returning.
\<close>

fun agent_root_loop :: "filesys \<Rightarrow> nat \<Rightarrow> path \<Rightarrow> path option" where
  "agent_root_loop fs 0 cur = None"
| "agent_root_loop fs (Suc n) cur =
     (if exists fs (agent_dir cur) then Some (agent_dir cur)
      else if exists fs (path_join cur (str ''skills'')) \<and> exists fs (agent_dir (parent cur))
        then Some (agent_dir (parent cur))
      else if parent cur = cur then None
      else agent_root_loop fs n (parent cur))"

definition find_agent_root :: "env \<Rightarrow> filesys \<Rightarrow> path \<Rightarrow> path" where
  "find_agent_root ev fs start =
     (case agent_root_loop fs 10 (resolve ev start) of
        Some p \<Rightarrow> p
      | None \<Rightarrow> Path [] [str ''.agent''])"

definition default_config :: json where
  "default_config = JObj [(str ''execution_backend'', JStr (str ''gemini''))]"

definition config_root :: "env \<Rightarrow> filesys \<Rightarrow> path option \<Rightarrow> path" where
  "config_root ev fs root_path =
     (case root_path of None \<Rightarrow> find_agent_root ev fs (cwd ev) | Some r \<Rightarrow> r)"

definition load_config :: "pylib \<Rightarrow> env \<Rightarrow> filesys \<Rightarrow> path option \<Rightarrow> json" where
  "load_config lib ev fs root_path =
     (let config_path = path_join (config_root ev fs root_path) (str ''config.json'') in
      if \<not> exists fs config_path then default_config
      else (case read_text fs config_path of
              Inl e \<Rightarrow> default_config
            | Inr txt \<Rightarrow>
                (case json_loads lib txt of
                   None \<Rightarrow> default_config
                 | Some v \<Rightarrow> v)))"


section \<open>execute\_task.py\<close>

text \<open>
  The loop of \<open>find_repo_root\<close>:
  \<^verbatim>\<open>
    for _ in range(10):
        if (curr / ".agent").exists():
            return curr
        if curr.parent == curr:
            break
        curr = curr.parent
  \<close>
\<close>

fun repo_root_loop :: "filesys \<Rightarrow> nat \<Rightarrow> path \<Rightarrow> path option" where
  "repo_root_loop fs 0 cur = None"
| "repo_root_loop fs (Suc n) cur =
     (if exists fs (agent_dir cur) then Some cur
      else if parent cur = cur then None
      else repo_root_loop fs n (parent cur))"

definition find_repo_root :: "env \<Rightarrow> filesys \<Rightarrow> path \<Rightarrow> path" where
  "find_repo_root ev fs start =
     (case repo_root_loop fs 10 (resolve ev start) of
        Some p \<Rightarrow> p
      | None \<Rightarrow> cwd ev)"

definition load_skill_instructions :: "filesys \<Rightarrow> path \<Rightarrow> exn + pystr" where
  "load_skill_instructions fs skill_path =
     (if \<not> exists fs skill_path then Inr [] else read_text fs skill_path)"

text \<open>
  The dictionary a backend returns. The fields carry the prefix \<open>b_\<close>. The early
  return for a missing skill has the keys \<open>success\<close> and \<open>error\<close> only: an absent
  \<open>output\<close> or \<open>full_log\<close> is \<open>None\<close>.
\<close>

record backend_result =
  b_success :: bool
  b_output :: "pystr option"
  b_error :: pystr
  b_full_log :: "pystr option"

definition skill_path :: "path \<Rightarrow> pystr \<Rightarrow> path" where
  "skill_path repo_root skill =
     path_join repo_root (str ''.agent/skills/superpowers-'' @ skill @ str ''/SKILL.md'')"

definition skill_not_found :: "path \<Rightarrow> backend_result" where
  "skill_not_found skill_file =
     \<lparr>b_success = False, b_output = None,
      b_error = str ''Skill not found: '' @ path_str skill_file, b_full_log = None\<rparr>"

text \<open>A text of lines, each ended by a newline (code point 10).\<close>

definition py_lines :: "pystr list \<Rightarrow> pystr" where
  "py_lines ls = concat (map (\<lambda>l. l @ [10]) ls)"

definition gemini_prompt :: "pystr \<Rightarrow> pystr \<Rightarrow> pystr \<Rightarrow> pystr \<Rightarrow> pystr" where
  "gemini_prompt skill task skill_instructions uid =
     py_lines
      [str ''You are a specialized subagent focused on: '' @ skill,
       [],
       str ''IMPORTANT: You have ISOLATED CONTEXT. Do not assume knowledge from other conversations.'',
       [],
       str ''Task:'',
       task,
       [],
       str ''Skill Instructions:'',
       skill_instructions,
       [],
       str ''Requirements:'',
       str ''1. Follow the skill instructions exactly'',
       str ''2. Complete the task fully'',
       str ''3. Output ONLY the final result at the end'',
       str ''4. Do not include meta-commentary or thinking process in final output'',
       str ''5. Write any artifacts to artifacts/superpowers/subagent-'' @ uid @ str ''/'',
       [],
       str ''When complete, output:'',
       str ''---SUBAGENT-RESULT-START---'',
       str ''[Your final result here]'',
       str ''---SUBAGENT-RESULT-END---'']"

definition claude_prompt :: "pystr \<Rightarrow> pystr \<Rightarrow> pystr" where
  "claude_prompt task skill_instructions =
     py_lines
      [str ''Task: '' @ task,
       [],
       str ''Skill Instructions:'',
       skill_instructions,
       [],
       str ''Requirements:'',
       str ''1. Follow the skill instructions exactly.'',
       str ''2. Complete the task fully.'',
       str ''3. If creating files, just create them.'']"

text \<open>\<open>log.write(s)\<close> on the open log file: the text is appended.\<close>

definition log_write :: "filesys \<Rightarrow> path \<Rightarrow> pystr \<Rightarrow> filesys" where
  "log_write fs log_file s =
     (case fs log_file of Some (File t) \<Rightarrow> fs(log_file \<mapsto> File (t @ s)) | _ \<Rightarrow> fs)"

text \<open>
  The reading loop of both backends (they differ in echoing to the console only):
  \<^verbatim>\<open>
    full_output = []
    while True:
        line = process.stdout.readline()
        if not line and process.poll() is not None:
            break
        if line:
            print(line, end="")
            log.write(line)
            full_output.append(line)
            log.flush()
    returncode = process.poll()
  \<close>
  The loop ends when a read at end of file finds the process exited; the result is the
  exit code and the lines read. When the events run out before that, the loop has not
  ended: the result is \<open>None\<close>.
\<close>

fun read_loop ::
  "event list \<Rightarrow> path \<Rightarrow> pystr list \<Rightarrow> filesys \<Rightarrow> ((exn + int \<times> pystr list) \<times> filesys) option"
where
  "read_loop [] log_file full_output fs = None"
| "read_loop (Fault e # evs) log_file full_output fs = Some (Inl e, fs)"
| "read_loop (Read line polled # evs) log_file full_output fs =
     (if line = [] then
        (case polled of
           Some returncode \<Rightarrow> Some (Inr (returncode, full_output), fs)
         | None \<Rightarrow> read_loop evs log_file full_output fs)
      else read_loop evs log_file (full_output @ [line]) (log_write fs log_file line))"

definition gemini_result :: "int \<Rightarrow> pystr \<Rightarrow> backend_result" where
  "gemini_result returncode output_str =
     \<lparr>b_success = (returncode = 0),
      b_output = Some (extract_result output_str),
      b_error = (if returncode = 0 then [] else str ''Process failed''),
      b_full_log = Some output_str\<rparr>"

definition claude_result :: "int \<Rightarrow> pystr \<Rightarrow> backend_result" where
  "claude_result returncode output_str =
     \<lparr>b_success = (returncode = 0),
      b_output = Some output_str,
      b_error = (if returncode = 0 then [] else str ''Process failed''),
      b_full_log = Some output_str\<rparr>"

text \<open>The command lines: \<open>cmd = ["gemini"]\<close>, with \<open>--yolo\<close> appended on request, and the
  fixed command of the Claude backend.\<close>

definition gemini_cmd :: "bool \<Rightarrow> pystr list" where
  "gemini_cmd yolo = [str ''gemini''] @ (if yolo then [str ''--yolo''] else [])"

definition claude_cmd :: "pystr list" where
  "claude_cmd =
     [str ''claude'', str ''-p'', str ''Follow the instructions provided in the input.'',
      str ''--dangerously-skip-permissions'']"

text \<open>The state after a child process was spawned, with the file system as it is then.\<close>

definition spawn :: "world \<Rightarrow> filesys \<Rightarrow> world" where
  "spawn w fs = w\<lparr>files := fs, spawned := Suc (spawned w)\<rparr>"

text \<open>
  A backend returns \<open>None\<close> when it does not return, \<open>Some (Inl e, w)\<close> when it raises
  \<open>e\<close>, and \<open>Some (Inr r, w)\<close> when it returns the dictionary \<open>r\<close>; \<open>w\<close> is the state left.
\<close>

definition run_gemini_backend ::
  "env \<Rightarrow> pystr \<Rightarrow> pystr \<Rightarrow> path \<Rightarrow> bool \<Rightarrow> path \<Rightarrow> bool \<Rightarrow> world \<Rightarrow>
     ((exn + backend_result) \<times> world) option"
where
  "run_gemini_backend ev skill task repo_root yolo log_file stream_output w =
     (let skill_file = skill_path repo_root skill in
      case load_skill_instructions (files w) skill_file of
        Inl e \<Rightarrow> Some (Inl e, w)
      | Inr skill_instructions \<Rightarrow>
          if skill_instructions = [] then Some (Inr (skill_not_found skill_file), w)
          else
            (let prompt = gemini_prompt skill task skill_instructions (take 8 (artifact_uuid ev));
                 cmd = gemini_cmd yolo
             in case write_file (files w) log_file [] of
                  Inl e \<Rightarrow> Some (Inl e, w)
                | Inr fs0 \<Rightarrow>
                    (let fs1 = log_write fs0 log_file (py_lines [str ''=== GEMINI EXECUTION START ==='']);
                         fs2 = log_write fs1 log_file (py_lines [str ''Task: '' @ task, []])
                     in if stream_output then
                          (case popen ev cmd repo_root prompt of
                             PopenRaises e \<Rightarrow> Some (Inl e, w\<lparr>files := fs2\<rparr>)
                           | StdinRaises e \<Rightarrow> Some (Inl e, spawn w fs2)
                           | Running events \<Rightarrow>
                               (case read_loop events log_file [] fs2 of
                                  None \<Rightarrow> None
                                | Some (Inl e, fs3) \<Rightarrow> Some (Inl e, spawn w fs3)
                                | Some (Inr (returncode, full_output), fs3) \<Rightarrow>
                                    Some (Inr (gemini_result returncode (concat full_output)),
                                          spawn w fs3)))
                        else
                          (case run ev cmd repo_root prompt of
                             RunNotSpawned e \<Rightarrow> Some (Inl e, w\<lparr>files := fs2\<rparr>)
                           | RunRaises e \<Rightarrow> Some (Inl e, spawn w fs2)
                           | Completed out err returncode \<Rightarrow>
                               (let fs3 = log_write fs2 log_file out;
                                    fs4 = log_write fs3 log_file ([10] @ py_lines [str ''=== STDERR ==='']);
                                    fs5 = log_write fs4 log_file err
                                in Some (Inr (gemini_result returncode out), spawn w fs5))))))"

definition run_claude_backend ::
  "env \<Rightarrow> pystr \<Rightarrow> pystr \<Rightarrow> path \<Rightarrow> bool \<Rightarrow> path \<Rightarrow> bool \<Rightarrow> world \<Rightarrow>
     ((exn + backend_result) \<times> world) option"
where
  "run_claude_backend ev skill task repo_root yolo log_file stream_output w =
     (let skill_file = skill_path repo_root skill in
      case load_skill_instructions (files w) skill_file of
        Inl e \<Rightarrow> Some (Inl e, w)
      | Inr skill_instructions \<Rightarrow>
          if skill_instructions = [] then Some (Inr (skill_not_found skill_file), w)
          else
            (let full_prompt = claude_prompt task skill_instructions;
                 cmd = claude_cmd
             in case write_file (files w) log_file [] of
                  Inl e \<Rightarrow> Some (Inl e, w)
                | Inr fs0 \<Rightarrow>
                    (let fs1 = log_write fs0 log_file (py_lines [str ''=== CLAUDE EXECUTION START ==='']);
                         fs2 = log_write fs1 log_file (py_lines [str ''Task: '' @ task, []])
                     in case popen ev cmd repo_root full_prompt of
                          PopenRaises e \<Rightarrow> Some (Inl e, w\<lparr>files := fs2\<rparr>)
                        | StdinRaises e \<Rightarrow> Some (Inl e, spawn w fs2)
                        | Running events \<Rightarrow>
                            (case read_loop events log_file [] fs2 of
                               None \<Rightarrow> None
                             | Some (Inl e, fs3) \<Rightarrow> Some (Inl e, spawn w fs3)
                             | Some (Inr (returncode, full_output), fs3) \<Rightarrow>
                                 Some (Inr (claude_result returncode (concat full_output)),
                                       spawn w fs3)))))"

text \<open>
  The dictionary \<open>execute_task\<close> returns (the fields carry the prefix \<open>r_\<close>). The backend
  name is whatever the configuration holds under \<open>execution_backend\<close>, a string or not.
\<close>

record task_result =
  r_success :: bool
  r_output :: pystr
  r_error :: pystr
  r_log_file :: pystr
  r_duration_s :: real
  r_subagent_id :: pystr
  r_backend :: json

text \<open>
  \<open>cfg.get("execution_backend", "gemini")\<close>: a value that is not a dict has no
  attribute \<open>get\<close>.
\<close>

definition get_backend :: "json \<Rightarrow> exn + json" where
  "get_backend cfg =
     (case cfg of
        JObj kvs \<Rightarrow>
          (case map_of kvs (str ''execution_backend'') of
             Some v \<Rightarrow> Inr v
           | None \<Rightarrow> Inr (JStr (str ''gemini'')))
      | _ \<Rightarrow> Inl (no_attribute cfg ''get''))"

text \<open>
  The two \<open>print\<close> calls before the \<open>try\<close>, made when the output format is \<open>text\<close> and
  the call is not in the background: \<open>backend.upper()\<close> raises for a backend that is not a
  string.
\<close>

definition announce :: "pystr \<Rightarrow> bool \<Rightarrow> json \<Rightarrow> exn option" where
  "announce output_format background backend =
     (if output_format = str ''text'' \<and> \<not> background then
        (case backend of JStr _ \<Rightarrow> None | _ \<Rightarrow> Some (no_attribute backend ''upper''))
      else None)"

text \<open>\<open>log_dir = repo_root / "artifacts" / "superpowers" / "subagents"\<close> and
  \<open>log_file = log_dir / f"{backend}-{skill}-{timestamp}-{subagent_id}.log"\<close>.\<close>

definition log_dir :: "path \<Rightarrow> path" where
  "log_dir repo_root =
     path_join (path_join (path_join repo_root (str ''artifacts'')) (str ''superpowers''))
       (str ''subagents'')"

definition log_path :: "pylib \<Rightarrow> env \<Rightarrow> path \<Rightarrow> json \<Rightarrow> pystr \<Rightarrow> path" where
  "log_path lib ev repo_root backend skill =
     path_join (log_dir repo_root)
       (py_format lib backend @ str ''-'' @ skill @ str ''-'' @ timestamp ev @ str ''-'' @
        take 8 (subagent_uuid ev) @ str ''.log'')"

text \<open>The dictionary of the \<open>except Exception as e\<close> branch.\<close>

definition failure :: "env \<Rightarrow> path \<Rightarrow> json \<Rightarrow> exn \<Rightarrow> task_result" where
  "failure ev log_file backend e =
     \<lparr>r_success = False, r_output = [], r_error = exn_str e,
      r_log_file = path_str log_file, r_duration_s = time_end ev - time_start ev,
      r_subagent_id = take 8 (subagent_uuid ev), r_backend = backend\<rparr>"

text \<open>
  What follows the backend's call inside the \<open>try\<close>, and the \<open>except\<close> branch: the
  dictionary built from the backend's, where \<open>result["output"]\<close> raises \<open>KeyError\<close> when
  the backend's dictionary has no such key; an exception of the backend, and that
  \<open>KeyError\<close>, become a failure record.
\<close>

definition summarize ::
  "env \<Rightarrow> path \<Rightarrow> json \<Rightarrow> ((exn + backend_result) \<times> world) option \<Rightarrow>
     ((exn + task_result) \<times> world) option"
where
  "summarize ev log_file backend outcome =
     (case outcome of
        None \<Rightarrow> None
      | Some (Inl e, w2) \<Rightarrow> Some (Inr (failure ev log_file backend e), w2)
      | Some (Inr result, w2) \<Rightarrow>
          (case b_output result of
             None \<Rightarrow> Some (Inr (failure ev log_file backend (KeyError (str ''output''))), w2)
           | Some out \<Rightarrow>
               Some (Inr \<lparr>r_success = b_success result, r_output = out,
                          r_error = b_error result,
                          r_log_file = path_str log_file,
                          r_duration_s = time_end ev - time_start ev,
                          r_subagent_id = take 8 (subagent_uuid ev),
                          r_backend = backend\<rparr>, w2)))"

text \<open>
  The selection of the backend, inside the \<open>try\<close>:
  \<^verbatim>\<open>
    if backend == "claude":
        result = run_claude_backend(skill, task, repo_root, yolo, log_file, stream_output=not background)
    else:
        result = run_gemini_backend(skill, task, repo_root, yolo, log_file, stream_output=not background)
  \<close>
\<close>

definition dispatch ::
  "env \<Rightarrow> json \<Rightarrow> pystr \<Rightarrow> pystr \<Rightarrow> path \<Rightarrow> bool \<Rightarrow> path \<Rightarrow> bool \<Rightarrow> world \<Rightarrow>
     ((exn + backend_result) \<times> world) option"
where
  "dispatch ev backend skill task repo_root yolo log_file background w =
     (if backend = JStr (str ''claude'')
      then run_claude_backend ev skill task repo_root yolo log_file (\<not> background) w
      else run_gemini_backend ev skill task repo_root yolo log_file (\<not> background) w)"

text \<open>
  \<open>execute_task\<close>: \<open>None\<close> when the call does not return, \<open>Some (Inl e, w)\<close> when the
  exception \<open>e\<close> escapes to the caller, \<open>Some (Inr r, w)\<close> when it returns \<open>r\<close>. Loading
  the configuration, reading the backend from it, creating the log directory and the two
  \<open>print\<close> calls come before the \<open>try\<close>.
\<close>

definition execute_task ::
  "pylib \<Rightarrow> env \<Rightarrow> pystr \<Rightarrow> pystr \<Rightarrow> path \<Rightarrow> bool \<Rightarrow> bool \<Rightarrow> pystr \<Rightarrow> world \<Rightarrow>
     ((exn + task_result) \<times> world) option"
where
  "execute_task lib ev skill task repo_root yolo background output_format w =
     (let cfg = load_config lib ev (files w) (Some (agent_dir repo_root)) in
      case get_backend cfg of
        Inl e \<Rightarrow> Some (Inl e, w)
      | Inr backend \<Rightarrow>
          (case mkdir_parents (files w) (log_dir repo_root) of
             Inl e \<Rightarrow> Some (Inl e, w)
           | Inr fs1 \<Rightarrow>
               (let w1 = w\<lparr>files := fs1\<rparr>;
                    log_file = log_path lib ev repo_root backend skill
                in case announce output_format background backend of
                     Some e \<Rightarrow> Some (Inl e, w1)
                   | None \<Rightarrow>
                       summarize ev log_file backend
                         (dispatch ev backend skill task repo_root yolo log_file background w1))))"


section \<open>Vocabulary of the properties\<close>

text \<open>
  \<open>leftmost sep a s\<close>: no occurrence of \<open>sep\<close> in \<open>s\<close> starts before position
  \<open>length a\<close>. With \<open>s = a @ sep @ b\<close> it says that the occurrence after \<open>a\<close> is the first.
\<close>

definition leftmost :: "pystr \<Rightarrow> pystr \<Rightarrow> pystr \<Rightarrow> bool" where
  "leftmost sep a s \<longleftrightarrow> (\<forall>a' b'. s = a' @ sep @ b' \<longrightarrow> length a \<le> length a')"

text \<open>
  The exit code a reading parent observes: that of the first read at end of file that
  finds the process exited, when no exception comes before it.
\<close>

fun final_status :: "event list \<Rightarrow> int option" where
  "final_status [] = None"
| "final_status (Fault e # evs) = None"
| "final_status (Read line polled # evs) =
     (if line = [] \<and> polled \<noteq> None then polled else final_status evs)"

text \<open>
  The exit code of a child that ran to completion, for a parent that reads it line by
  line (\<open>Popen\<close>) or all at once (\<open>subprocess.run\<close>); \<open>None\<close> when it did not.
\<close>

definition child_exit :: "env \<Rightarrow> bool \<Rightarrow> pystr list \<Rightarrow> path \<Rightarrow> pystr \<Rightarrow> int option" where
  "child_exit ev by_line cmd dir inp =
     (if by_line then
        (case popen ev cmd dir inp of Running events \<Rightarrow> final_status events | _ \<Rightarrow> None)
      else
        (case run ev cmd dir inp of Completed out err returncode \<Rightarrow> Some returncode | _ \<Rightarrow> None))"

text \<open>The \<open>k\<close>-th level above a path: the path itself for \<open>k = 0\<close>, then parent by parent.\<close>

definition level :: "path \<Rightarrow> nat \<Rightarrow> path" where
  "level p k = (parent ^^ k) p"

section \<open>Concrete inputs\<close>

text \<open>
  A repository \<open>/repo\<close> with one skill, \<open>plan\<close>; a child process that prints the example
  of the specification and exits with code 0; and a fragment of the \<open>json\<close> module that
  treats the texts and values of the examples as \<open>json\<close> does.
\<close>

definition ex_root :: path where
  "ex_root = Path (str ''/'') [str ''repo'']"

definition ex_files :: filesys where
  "ex_files =
     [Path (str ''/'') [] \<mapsto> Dir,
      Path (str ''/'') [str ''repo''] \<mapsto> Dir,
      Path (str ''/'') [str ''repo'', str ''.agent''] \<mapsto> Dir,
      Path (str ''/'') [str ''repo'', str ''.agent'', str ''skills''] \<mapsto> Dir,
      Path (str ''/'') [str ''repo'', str ''.agent'', str ''skills'', str ''superpowers-plan''] \<mapsto> Dir,
      Path (str ''/'') [str ''repo'', str ''.agent'', str ''skills'', str ''superpowers-plan'',
        str ''SKILL.md''] \<mapsto> File (str ''Plan the work.'')]"

definition ex_world :: world where
  "ex_world = \<lparr>files = ex_files, spawned = 0\<rparr>"

text \<open>The same repository, where \<open>/repo/artifacts\<close> is a regular file.\<close>

definition ex_world_blocked :: world where
  "ex_world_blocked =
     \<lparr>files = ex_files(Path (str ''/'') [str ''repo'', str ''artifacts''] \<mapsto> File []),
      spawned = 0\<rparr>"

text \<open>A log file in the repository, for calling a backend directly.\<close>

definition ex_log :: path where
  "ex_log = Path (str ''/'') [str ''repo'', str ''run.log'']"


definition ex_lines :: "pystr list" where
  "ex_lines =
     [str ''noise'' @ [10], RESULT_START @ [10], str ''DONE'' @ [10], RESULT_END @ [10],
      str ''more noise'']"

definition ex_env :: env where
  "ex_env =
     \<lparr>cwd = ex_root,
      resolve = (\<lambda>p. p),
      subagent_uuid = str ''0123456789abcdef0123456789abcdef'',
      artifact_uuid = str ''fedcba9876543210fedcba9876543210'',
      timestamp = str ''20260101-120000'',
      time_start = 0,
      time_end = 1,
      popen = (\<lambda>cmd dir inp. Running (map (\<lambda>l. Read l None) ex_lines @ [Read [] (Some 0)])),
      run = (\<lambda>cmd dir inp. Completed (concat ex_lines) [] 0)\<rparr>"

text \<open>The same environment, where no child process can be spawned.\<close>

definition ex_env_no_spawn :: env where
  "ex_env_no_spawn =
     ex_env\<lparr>popen := (\<lambda>cmd dir inp. PopenRaises (Raised (str ''cannot spawn''))),
            run := (\<lambda>cmd dir inp. RunNotSpawned (Raised (str ''cannot spawn'')))\<rparr>"

text \<open>The same environment, where the child prints one line and exits with code 2; the
  reading parent sees the end of the output once before the child has exited.\<close>

definition ex_env_exit2 :: env where
  "ex_env_exit2 =
     ex_env\<lparr>popen := (\<lambda>cmd dir inp.
              Running [Read (str ''boom'' @ [10]) None, Read [] None, Read [] (Some 2)]),
            run := (\<lambda>cmd dir inp. Completed (str ''boom'' @ [10]) [] 2)\<rparr>"

text \<open>A configuration that names a backend nobody knows (code point 34 is the double
  quote), and the repository that holds it.\<close>

definition ex_config_text :: pystr where
  "ex_config_text =
     str ''{'' @ [34] @ str ''execution_backend'' @ [34] @ str '': '' @ [34] @ str ''codex'' @ [34] @
     str ''}''"


text \<open>The example repository after the log directory was created.\<close>

definition ex_files_logdir :: filesys where
  "ex_files_logdir =
     ex_files
      (Path (str ''/'') [str ''repo'', str ''artifacts''] \<mapsto> Dir,
       Path (str ''/'') [str ''repo'', str ''artifacts'', str ''superpowers''] \<mapsto> Dir,
       Path (str ''/'') [str ''repo'', str ''artifacts'', str ''superpowers'', str ''subagents''] \<mapsto> Dir)"

definition ex_lib :: pylib where
  "ex_lib =
     \<lparr>json_loads = (\<lambda>s. if s = str ''{}'' then Some (JObj [])
                         else if s = ex_config_text
                           then Some (JObj [(str ''execution_backend'', JStr (str ''codex''))])
                         else None),
      json_dumps = (\<lambda>v. case v of JObj [] \<Rightarrow> str ''{}'' | _ \<Rightarrow> str ''null''),
      str_of = (\<lambda>v. str ''None'')\<rparr>"


section \<open>Strings: membership and the first split\<close>

lemma py_in_sublist: "py_in sub s = sublist sub s"
  by (induction s) (simp_all add: sublist_Cons_right)

lemma py_in_iff: "py_in sub s \<longleftrightarrow> (\<exists>ps ss. s = ps @ sub @ ss)"
  by (simp add: py_in_sublist sublist_def)

lemma split_at_first_None: "sep \<noteq> [] \<Longrightarrow> split_at_first sep s = None \<longleftrightarrow> \<not> py_in sep s"
  by (induction s) auto

lemma split_at_first_sound:
  "split_at_first sep s = Some (a, b) \<Longrightarrow> s = a @ sep @ b"
proof (induction s arbitrary: a)
  case Nil
  then show ?case by (simp split: if_splits)
next
  case (Cons c cs)
  show ?case
  proof (cases "prefix sep (c # cs)")
    case True
    with Cons.prems have "a = []" "b = drop (length sep) (c # cs)" by simp_all
    with True show ?thesis by (metis append_Nil append_eq_conv_conj prefixE)
  next
    case False
    with Cons.prems obtain a' where "split_at_first sep cs = Some (a', b)" "a = c # a'"
      by auto
    with Cons.IH show ?thesis by simp
  qed
qed

lemma split_at_first_leftmost:
  "split_at_first sep s = Some (a, b) \<Longrightarrow> s = a' @ sep @ b' \<Longrightarrow> length a \<le> length a'"
proof (induction s arbitrary: a a')
  case Nil
  then show ?case by (simp split: if_splits)
next
  case (Cons c cs)
  show ?case
  proof (cases "prefix sep (c # cs)")
    case True
    with Cons.prems(1) have "a = []" by simp
    then show ?thesis by simp
  next
    case False
    with Cons.prems(1) obtain a1 where a1: "split_at_first sep cs = Some (a1, b)" "a = c # a1"
      by auto
    from False Cons.prems(2) have "a' \<noteq> []" by (auto simp: prefix_def)
    then obtain a2 where a2: "a' = c # a2" "cs = a2 @ sep @ b'"
      using Cons.prems(2) by (cases a') auto
    from Cons.IH[OF a1(1) a2(2)] a1(2) a2(1) show ?thesis by simp
  qed
qed

lemma split_at_first_complete:
  assumes "s = a @ sep @ b" and "\<forall>a' b'. s = a' @ sep @ b' \<longrightarrow> length a \<le> length a'"
  shows "split_at_first sep s = Some (a, b)"
proof -
  have "py_in sep s" using assms(1) by (auto simp: py_in_iff)
  show ?thesis
  proof (cases "split_at_first sep s")
    case None
    show ?thesis
    proof (cases "sep = []")
      case True
      then show ?thesis using None by (cases s) auto
    next
      case False
      then show ?thesis using None \<open>py_in sep s\<close> by (simp add: split_at_first_None)
    qed
  next
    case (Some ab)
    obtain a1 b1 where ab: "ab = (a1, b1)" by (cases ab)
    have s1: "s = a1 @ sep @ b1" using Some ab by (simp add: split_at_first_sound)
    have "length a1 \<le> length a" using Some ab assms(1) by (auto dest: split_at_first_leftmost)
    moreover have "length a \<le> length a1" using assms(2) s1 by blast
    ultimately have "length a = length a1" by simp
    with s1 assms(1) have "a = a1" "b = b1" by auto
    with Some ab show ?thesis by simp
  qed
qed

section \<open>The file system: what a write leaves behind\<close>

lemma walk_Found_lookup:
  "walk fs a seen rest = Found n \<Longrightarrow> fs (Path a (seen @ rest)) = Some n"
proof (induction rest arbitrary: seen)
  case Nil
  then show ?case by (simp split: option.splits)
next
  case (Cons c cs)
  from Cons.prems have "walk fs a (seen @ [c]) cs = Found n"
    by (simp split: option.splits node.splits)
  then have "fs (Path a ((seen @ [c]) @ cs)) = Some n" by (rule Cons.IH)
  then show ?case by simp
qed

lemma walk_upd_target:
  assumes "walk fs a seen rest = Found n \<or> (rest \<noteq> [] \<and> walk fs a seen (butlast rest) = Found Dir)"
  shows "walk (fs(Path a (seen @ rest) \<mapsto> m)) a seen rest = Found m"
  using assms
proof (induction rest arbitrary: seen)
  case Nil
  then show ?case by simp
next
  case (Cons c cs)
  have here: "(fs(Path a (seen @ c # cs) \<mapsto> m)) (Path a seen) = fs (Path a seen)"
    by simp
  show ?case
  proof (cases "cs = []")
    case True
    with Cons.prems have "fs (Path a seen) = Some Dir"
      by (auto split: option.splits node.splits)
    with True show ?thesis by simp
  next
    case False
    with Cons.prems have dir: "fs (Path a seen) = Some Dir"
      and sub: "walk fs a (seen @ [c]) cs = Found n \<or> walk fs a (seen @ [c]) (butlast cs) = Found Dir"
      by (auto split: option.splits node.splits)
    from sub False have "walk (fs(Path a ((seen @ [c]) @ cs) \<mapsto> m)) a (seen @ [c]) cs = Found m"
      by (intro Cons.IH) auto
    then have "walk (fs(Path a (seen @ c # cs) \<mapsto> m)) a (seen @ [c]) cs = Found m"
      by simp
    with dir here show ?thesis by (simp del: fun_upd_apply)
  qed
qed

lemma os_stat_upd_target:
  assumes "os_stat fs p = Found n \<or> (parts p \<noteq> [] \<and> is_dir fs (parent p))"
  shows "os_stat (fs(p \<mapsto> m)) p = Found m"
proof -
  obtain a ps where p: "p = Path a ps" by (cases p)
  from assms have "walk fs a [] ps = Found n \<or> (ps \<noteq> [] \<and> walk fs a [] (butlast ps) = Found Dir)"
    by (simp add: p os_stat_def is_dir_def parent_def)
  then have "walk (fs(Path a ([] @ ps) \<mapsto> m)) a [] ps = Found m"
    by (rule walk_upd_target)
  then show ?thesis by (simp add: p os_stat_def)
qed

lemma os_stat_upd_existing: "os_stat fs p = Found n \<Longrightarrow> os_stat (fs(p \<mapsto> m)) p = Found m"
  by (rule os_stat_upd_target[where n = n]) simp

lemma os_stat_upd_new:
  "parts p \<noteq> [] \<Longrightarrow> is_dir fs (parent p) \<Longrightarrow> os_stat (fs(p \<mapsto> m)) p = Found m"
  by (rule os_stat_upd_target[where n = Dir]) simp

lemma write_file_stat:
  "write_file fs p s = Inr fs' \<Longrightarrow> os_stat fs' p = Found (File s)"
  by (auto simp: write_file_def os_stat_upd_existing os_stat_upd_new
        split: stat.splits node.splits if_splits)

lemma os_stat_lookup: "os_stat fs p = Found n \<Longrightarrow> fs p = Some n"
  using walk_Found_lookup[of fs "anchor p" "[]" "parts p" n] by (simp add: os_stat_def)

lemma log_write_stat:
  "os_stat fs p = Found (File t) \<Longrightarrow> os_stat (log_write fs p s) p = Found (File (t @ s))"
  by (simp add: log_write_def os_stat_lookup os_stat_upd_existing)

lemma read_loop_stat:
  "read_loop evs p acc fs = Some (res, fs') \<Longrightarrow> \<exists>t. os_stat fs p = Found (File t) \<Longrightarrow>
   \<exists>t. os_stat fs' p = Found (File t)"
proof (induction evs p acc fs rule: read_loop.induct)
  case (1 log_file full_output fs)
  then show ?case by simp
next
  case (2 e evs log_file full_output fs)
  then show ?case by auto
next
  case (3 line polled evs log_file full_output fs)
  show ?case
  proof (cases "line = []")
    case True
    with 3 show ?thesis by (cases polled) auto
  next
    case False
    from "3.prems"(2) obtain t where "os_stat fs log_file = Found (File t)" by blast
    then have "\<exists>t. os_stat (log_write fs log_file line) log_file = Found (File t)"
      by (auto dest: log_write_stat)
    with 3 False show ?thesis by simp
  qed
qed

lemma read_loop_status:
  "read_loop evs p acc fs = Some (Inr (rc, out), fs') \<Longrightarrow> final_status evs = Some rc"
  by (induction evs p acc fs rule: read_loop.induct) (auto split: if_splits option.splits)


section \<open>Loading and saving the configuration\<close>

lemmas path_eval = path_join_def parse_anchor_def parse_parts_def str_def agent_dir_def
  exists_def os_stat_def




lemma is_file_iff: "is_file fs p \<longleftrightarrow> (\<exists>t. os_stat fs p = Found (File t))"
  by (auto simp: is_file_def split: stat.splits node.splits)

lemma is_file_exists: "is_file fs p \<Longrightarrow> exists fs p"
  by (auto simp: is_file_iff exists_def)

lemma write_file_is_file: "write_file fs p s = Inr fs' \<Longrightarrow> is_file fs' p"
  by (auto simp: is_file_iff dest: write_file_stat)

lemma log_write_is_file: "is_file fs p \<Longrightarrow> is_file (log_write fs p s) p"
  by (auto simp: is_file_iff dest: log_write_stat)

lemma read_loop_is_file:
  "read_loop evs p acc fs = Some (res, fs') \<Longrightarrow> is_file fs p \<Longrightarrow> is_file fs' p"
  unfolding is_file_iff by (rule read_loop_stat)





section \<open>The extraction of the final result\<close>

lemma extract_between:
  assumes "out = pre @ RESULT_START @ mid @ RESULT_END @ post"
    and "leftmost RESULT_START pre out"
    and "leftmost RESULT_END mid (mid @ RESULT_END @ post)"
  shows "extract_result out = py_strip mid"
proof -
  have "py_in RESULT_START out"
    using assms(1) by (auto simp: py_in_iff)
  moreover have "split_at_first RESULT_START out = Some (pre, mid @ RESULT_END @ post)"
    using assms(1,2) by (intro split_at_first_complete) (auto simp: leftmost_def)
  moreover have "split_at_first RESULT_END (mid @ RESULT_END @ post) = Some (mid, post)"
    using assms(3) by (intro split_at_first_complete) (auto simp: leftmost_def)
  ultimately show ?thesis
    by (simp add: extract_result_def py_split1_def)
qed

lemma extract_absent: "\<not> py_in RESULT_START out \<Longrightarrow> extract_result out = out"
  by (simp add: extract_result_def)

lemma extract_unclosed:
  assumes "out = pre @ RESULT_START @ rest"
    and "leftmost RESULT_START pre out"
    and "\<not> py_in RESULT_END rest"
  shows "extract_result out = py_strip rest"
proof -
  have "py_in RESULT_START out"
    using assms(1) by (auto simp: py_in_iff)
  moreover have "split_at_first RESULT_START out = Some (pre, rest)"
    using assms(1,2) by (intro split_at_first_complete) (auto simp: leftmost_def)
  moreover have "RESULT_END \<noteq> []" by (simp add: RESULT_END_def str_def)
  then have "split_at_first RESULT_END rest = None"
    using assms(3) by (simp add: split_at_first_None)
  ultimately show ?thesis
    by (simp add: extract_result_def py_split1_def)
qed


section \<open>The backends, case by case\<close>

text \<open>
  Every way a backend call can end: the skill file cannot be read, the skill is missing or
  empty, the log file cannot be opened, the child cannot be spawned, the child was
  spawned and an exception followed, or the child ran to completion.
\<close>

lemma gemini_backendE [consumes 1, case_names load_raises not_found no_log no_child child_raises child_done]:
  assumes call: "run_gemini_backend ev skill task repo_root yolo log_file stream_output w = Some (res, w')"
  obtains
    (load_raises) e where
      "load_skill_instructions (files w) (skill_path repo_root skill) = Inl e"
      "res = Inl e" "w' = w"
  | (not_found)
      "load_skill_instructions (files w) (skill_path repo_root skill) = Inr []"
      "res = Inr (skill_not_found (skill_path repo_root skill))" "w' = w"
  | (no_log) instr e where
      "load_skill_instructions (files w) (skill_path repo_root skill) = Inr instr" "instr \<noteq> []"
      "write_file (files w) log_file [] = Inl e" "res = Inl e" "w' = w"
  | (no_child) instr e fs where
      "load_skill_instructions (files w) (skill_path repo_root skill) = Inr instr" "instr \<noteq> []"
      "res = Inl e" "w' = w\<lparr>files := fs\<rparr>" "is_file fs log_file"
  | (child_raises) instr e fs where
      "load_skill_instructions (files w) (skill_path repo_root skill) = Inr instr" "instr \<noteq> []"
      "res = Inl e" "w' = spawn w fs" "is_file fs log_file"
  | (child_done) instr returncode out fs where
      "load_skill_instructions (files w) (skill_path repo_root skill) = Inr instr" "instr \<noteq> []"
      "child_exit ev stream_output (gemini_cmd yolo) repo_root
         (gemini_prompt skill task instr (take 8 (artifact_uuid ev))) = Some returncode"
      "res = Inr (gemini_result returncode out)" "w' = spawn w fs" "is_file fs log_file"
proof (cases "load_skill_instructions (files w) (skill_path repo_root skill)")
  case (Inl e)
  with call have "res = Inl e" "w' = w"
    by (simp_all add: run_gemini_backend_def Let_def)
  with Inl load_raises show ?thesis by blast
next
  case (Inr instr)
  note load = this
  show ?thesis
  proof (cases "instr = []")
    case True
    with call load have "res = Inr (skill_not_found (skill_path repo_root skill))" "w' = w"
      by (simp_all add: run_gemini_backend_def Let_def)
    with load True not_found show ?thesis by blast
  next
    case False
    note nonempty = this
    show ?thesis
    proof (cases "write_file (files w) log_file []")
      case (Inl e)
      with call load nonempty have "res = Inl e" "w' = w"
        by (simp_all add: run_gemini_backend_def Let_def)
      with load nonempty Inl no_log show ?thesis by blast
    next
      case (Inr fs0)
      note opened = this
      let ?prompt = "gemini_prompt skill task instr (take 8 (artifact_uuid ev))"
      define fs2 where "fs2 =
        log_write (log_write fs0 log_file (py_lines [str ''=== GEMINI EXECUTION START ==='']))
          log_file (py_lines [str ''Task: '' @ task, []])"
      have file2: "is_file fs2 log_file"
        unfolding fs2_def using opened by (intro log_write_is_file write_file_is_file)
      show ?thesis
      proof (cases stream_output)
        case True
        note streaming = this
        show ?thesis
        proof (cases "popen ev (gemini_cmd yolo) repo_root ?prompt")
          case (PopenRaises e)
          with call load nonempty opened streaming have "res = Inl e" "w' = w\<lparr>files := fs2\<rparr>"
            by (simp_all add: run_gemini_backend_def Let_def fs2_def)
          with load nonempty file2 no_child show ?thesis by blast
        next
          case (StdinRaises e)
          with call load nonempty opened streaming have "res = Inl e" "w' = spawn w fs2"
            by (simp_all add: run_gemini_backend_def Let_def fs2_def)
          with load nonempty file2 child_raises show ?thesis by blast
        next
          case (Running events)
          note running = this
          show ?thesis
          proof (cases "read_loop events log_file [] fs2")
            case None
            with call load nonempty opened streaming running show ?thesis
              by (simp add: run_gemini_backend_def Let_def fs2_def)
          next
            case (Some outcome)
            obtain r fs3 where outcome: "outcome = (r, fs3)" by (cases outcome)
            from Some outcome file2 have file3: "is_file fs3 log_file"
              by (auto dest: read_loop_is_file)
            show ?thesis
            proof (cases r)
              case (Inl e)
              with call load nonempty opened streaming running Some outcome
              have "res = Inl e" "w' = spawn w fs3"
                by (simp_all add: run_gemini_backend_def Let_def fs2_def)
              with load nonempty file3 child_raises show ?thesis by blast
            next
              case (Inr fin)
              obtain returncode full_output where fin: "fin = (returncode, full_output)"
                by (cases fin)
              from call load nonempty opened streaming running Some outcome Inr fin
              have "res = Inr (gemini_result returncode (concat full_output))" "w' = spawn w fs3"
                by (simp_all add: run_gemini_backend_def Let_def fs2_def)
              moreover from Some outcome Inr fin have "final_status events = Some returncode"
                by (auto dest: read_loop_status)
              with streaming running have "child_exit ev stream_output (gemini_cmd yolo) repo_root ?prompt = Some returncode"
                by (simp add: child_exit_def)
              ultimately show ?thesis using load nonempty file3 child_done by blast
            qed
          qed
        qed
      next
        case False
        note background = this
        show ?thesis
        proof (cases "run ev (gemini_cmd yolo) repo_root ?prompt")
          case (RunNotSpawned e)
          with call load nonempty opened background have "res = Inl e" "w' = w\<lparr>files := fs2\<rparr>"
            by (simp_all add: run_gemini_backend_def Let_def fs2_def)
          with load nonempty file2 no_child show ?thesis by blast
        next
          case (RunRaises e)
          with call load nonempty opened background have "res = Inl e" "w' = spawn w fs2"
            by (simp_all add: run_gemini_backend_def Let_def fs2_def)
          with load nonempty file2 child_raises show ?thesis by blast
        next
          case (Completed out err returncode)
          define fs5 where "fs5 =
            log_write (log_write (log_write fs2 log_file out) log_file
              ([10] @ py_lines [str ''=== STDERR ==='']))  log_file err"
          have file5: "is_file fs5 log_file"
            unfolding fs5_def using file2 by (intro log_write_is_file)
          from call load nonempty opened background Completed
          have "res = Inr (gemini_result returncode out)" "w' = spawn w fs5"
            by (simp_all add: run_gemini_backend_def Let_def fs2_def fs5_def)
          moreover from background Completed
          have "child_exit ev stream_output (gemini_cmd yolo) repo_root ?prompt = Some returncode"
            by (simp add: child_exit_def)
          ultimately show ?thesis using load nonempty file5 child_done by blast
        qed
      qed
    qed
  qed
qed

lemma claude_backendE [consumes 1, case_names load_raises not_found no_log no_child child_raises child_done]:
  assumes call: "run_claude_backend ev skill task repo_root yolo log_file stream_output w = Some (res, w')"
  obtains
    (load_raises) e where
      "load_skill_instructions (files w) (skill_path repo_root skill) = Inl e"
      "res = Inl e" "w' = w"
  | (not_found)
      "load_skill_instructions (files w) (skill_path repo_root skill) = Inr []"
      "res = Inr (skill_not_found (skill_path repo_root skill))" "w' = w"
  | (no_log) instr e where
      "load_skill_instructions (files w) (skill_path repo_root skill) = Inr instr" "instr \<noteq> []"
      "write_file (files w) log_file [] = Inl e" "res = Inl e" "w' = w"
  | (no_child) instr e fs where
      "load_skill_instructions (files w) (skill_path repo_root skill) = Inr instr" "instr \<noteq> []"
      "res = Inl e" "w' = w\<lparr>files := fs\<rparr>" "is_file fs log_file"
  | (child_raises) instr e fs where
      "load_skill_instructions (files w) (skill_path repo_root skill) = Inr instr" "instr \<noteq> []"
      "res = Inl e" "w' = spawn w fs" "is_file fs log_file"
  | (child_done) instr returncode out fs where
      "load_skill_instructions (files w) (skill_path repo_root skill) = Inr instr" "instr \<noteq> []"
      "child_exit ev True claude_cmd repo_root (claude_prompt task instr) = Some returncode"
      "res = Inr (claude_result returncode out)" "w' = spawn w fs" "is_file fs log_file"
proof (cases "load_skill_instructions (files w) (skill_path repo_root skill)")
  case (Inl e)
  with call have "res = Inl e" "w' = w"
    by (simp_all add: run_claude_backend_def Let_def)
  with Inl load_raises show ?thesis by blast
next
  case (Inr instr)
  note load = this
  show ?thesis
  proof (cases "instr = []")
    case True
    with call load have "res = Inr (skill_not_found (skill_path repo_root skill))" "w' = w"
      by (simp_all add: run_claude_backend_def Let_def)
    with load True not_found show ?thesis by blast
  next
    case False
    note nonempty = this
    show ?thesis
    proof (cases "write_file (files w) log_file []")
      case (Inl e)
      with call load nonempty have "res = Inl e" "w' = w"
        by (simp_all add: run_claude_backend_def Let_def)
      with load nonempty Inl no_log show ?thesis by blast
    next
      case (Inr fs0)
      note opened = this
      let ?prompt = "claude_prompt task instr"
      define fs2 where "fs2 =
        log_write (log_write fs0 log_file (py_lines [str ''=== CLAUDE EXECUTION START ==='']))
          log_file (py_lines [str ''Task: '' @ task, []])"
      have file2: "is_file fs2 log_file"
        unfolding fs2_def using opened by (intro log_write_is_file write_file_is_file)
      show ?thesis
      proof (cases "popen ev claude_cmd repo_root ?prompt")
        case (PopenRaises e)
        with call load nonempty opened have "res = Inl e" "w' = w\<lparr>files := fs2\<rparr>"
          by (simp_all add: run_claude_backend_def Let_def fs2_def)
        with load nonempty file2 no_child show ?thesis by blast
      next
        case (StdinRaises e)
        with call load nonempty opened have "res = Inl e" "w' = spawn w fs2"
          by (simp_all add: run_claude_backend_def Let_def fs2_def)
        with load nonempty file2 child_raises show ?thesis by blast
      next
        case (Running events)
        note running = this
        show ?thesis
        proof (cases "read_loop events log_file [] fs2")
          case None
          with call load nonempty opened running show ?thesis
            by (simp add: run_claude_backend_def Let_def fs2_def)
        next
          case (Some outcome)
          obtain r fs3 where outcome: "outcome = (r, fs3)" by (cases outcome)
          from Some outcome file2 have file3: "is_file fs3 log_file"
            by (auto dest: read_loop_is_file)
          show ?thesis
          proof (cases r)
            case (Inl e)
            with call load nonempty opened running Some outcome
            have "res = Inl e" "w' = spawn w fs3"
              by (simp_all add: run_claude_backend_def Let_def fs2_def)
            with load nonempty file3 child_raises show ?thesis by blast
          next
            case (Inr fin)
            obtain returncode full_output where fin: "fin = (returncode, full_output)"
              by (cases fin)
            from call load nonempty opened running Some outcome Inr fin
            have "res = Inr (claude_result returncode (concat full_output))" "w' = spawn w fs3"
              by (simp_all add: run_claude_backend_def Let_def fs2_def)
            moreover from Some outcome Inr fin have "final_status events = Some returncode"
              by (auto dest: read_loop_status)
            with running have "child_exit ev True claude_cmd repo_root ?prompt = Some returncode"
              by (simp add: child_exit_def)
            ultimately show ?thesis using load nonempty file3 child_done by blast
          qed
        qed
      qed
    qed
  qed
qed


section \<open>A missing skill\<close>


lemma gemini_missing_skill:
  "load_skill_instructions (files w) (skill_path repo_root skill) = Inr [] \<Longrightarrow>
   run_gemini_backend ev skill task repo_root yolo log_file stream_output w =
     Some (Inr (skill_not_found (skill_path repo_root skill)), w)"
  by (simp add: run_gemini_backend_def Let_def)

lemma claude_missing_skill:
  "load_skill_instructions (files w) (skill_path repo_root skill) = Inr [] \<Longrightarrow>
   run_claude_backend ev skill task repo_root yolo log_file stream_output w =
     Some (Inr (skill_not_found (skill_path repo_root skill)), w)"
  by (simp add: run_claude_backend_def Let_def)


lemma split_char_absent: "c \<notin> set xs \<Longrightarrow> py_split_char c xs = [xs]"
  by (induction xs) auto

lemma split_char_append:
  "c \<notin> set xs \<Longrightarrow> py_split_char c (xs @ c # ys) = xs # py_split_char c ys"
  by (induction xs) auto

lemma skill_path_plain:
  assumes "47 \<notin> set skill"
  shows "skill_path repo_root skill =
    Path (anchor repo_root)
      (parts repo_root @ [str ''.agent'', str ''skills'', str ''superpowers-'' @ skill, str ''SKILL.md''])"
proof -
  let ?s = "str ''.agent/skills/superpowers-'' @ skill @ str ''/SKILL.md''"
  have shape: "?s = str ''.agent'' @ 47 # str ''skills'' @ 47 # (str ''superpowers-'' @ skill) @ 47 # str ''SKILL.md''"
    by (simp add: str_def)
  have a: "47 \<notin> set (str ''.agent'')" and b: "47 \<notin> set (str ''skills'')"
    and c: "47 \<notin> set (str ''superpowers-'' @ skill)" and d: "47 \<notin> set (str ''SKILL.md'')"
    using assms by (simp_all add: str_def)
  have "py_split_char 47 ?s =
      [str ''.agent'', str ''skills'', str ''superpowers-'' @ skill, str ''SKILL.md'']"
    unfolding shape
    by (simp only: split_char_append[OF a] split_char_append[OF b] split_char_append[OF c]
        split_char_absent[OF d])
  moreover have "str ''.agent'' \<noteq> []" "str ''.agent'' \<noteq> str ''.''" "str ''skills'' \<noteq> []"
    "str ''skills'' \<noteq> str ''.''" "str ''superpowers-'' @ skill \<noteq> []"
    "str ''superpowers-'' @ skill \<noteq> str ''.''" "str ''SKILL.md'' \<noteq> []" "str ''SKILL.md'' \<noteq> str ''.''"
    by (simp_all add: str_def)
  moreover have "parse_anchor ?s = []"
    by (simp add: parse_anchor_def str_def)
  ultimately show ?thesis
    by (simp add: skill_path_def path_join_def parse_parts_def)
qed





section \<open>The reading loop\<close>

lemma read_loop_completes:
  "final_status evs = Some rc \<Longrightarrow> \<exists>out fs'. read_loop evs p acc fs = Some (Inr (rc, out), fs')"
  by (induction evs p acc fs rule: read_loop.induct) (auto split: if_splits)

lemma read_loop_lines:
  assumes "\<forall>l\<in>set ls. l \<noteq> []"
  shows "read_loop (map (\<lambda>l. Read l None) ls @ Read [] (Some rc) # rest) p acc fs =
    Some (Inr (rc, acc @ ls), foldl (\<lambda>f l. log_write f p l) fs ls)"
  using assms by (induction ls arbitrary: acc fs) auto


section \<open>Success and the exit code\<close>

lemma gemini_completes:
  assumes "load_skill_instructions (files w) (skill_path repo_root skill) = Inr instr"
    and "instr \<noteq> []"
    and "write_file (files w) log_file [] = Inr fs0"
    and "child_exit ev stream_output (gemini_cmd yolo) repo_root
           (gemini_prompt skill task instr (take 8 (artifact_uuid ev))) = Some rc"
  shows "\<exists>out fs. run_gemini_backend ev skill task repo_root yolo log_file stream_output w =
           Some (Inr (gemini_result rc out), spawn w fs)"
proof (cases stream_output)
  case True
  with assms(4) obtain events where
    running: "popen ev (gemini_cmd yolo) repo_root
       (gemini_prompt skill task instr (take 8 (artifact_uuid ev))) = Running events"
    and status: "final_status events = Some rc"
    by (auto simp: child_exit_def split: popen_result.splits)
  let ?fs2 = "log_write (log_write fs0 log_file (py_lines [str ''=== GEMINI EXECUTION START ==='']))
      log_file (py_lines [str ''Task: '' @ task, []])"
  from status obtain out fs' where "read_loop events log_file [] ?fs2 = Some (Inr (rc, out), fs')"
    using read_loop_completes by blast
  with assms(1-3) True running show ?thesis
    by (auto simp: run_gemini_backend_def Let_def)
next
  case False
  with assms(4) obtain out err where
    "run ev (gemini_cmd yolo) repo_root
       (gemini_prompt skill task instr (take 8 (artifact_uuid ev))) = Completed out err rc"
    by (auto simp: child_exit_def split: run_result.splits)
  with assms(1-3) False show ?thesis
    by (auto simp: run_gemini_backend_def Let_def)
qed

lemma claude_completes:
  assumes "load_skill_instructions (files w) (skill_path repo_root skill) = Inr instr"
    and "instr \<noteq> []"
    and "write_file (files w) log_file [] = Inr fs0"
    and "child_exit ev True claude_cmd repo_root (claude_prompt task instr) = Some rc"
  shows "\<exists>out fs. run_claude_backend ev skill task repo_root yolo log_file stream_output w =
           Some (Inr (claude_result rc out), spawn w fs)"
proof -
  from assms(4) obtain events where
    running: "popen ev claude_cmd repo_root (claude_prompt task instr) = Running events"
    and status: "final_status events = Some rc"
    by (auto simp: child_exit_def split: popen_result.splits)
  let ?fs2 = "log_write (log_write fs0 log_file (py_lines [str ''=== CLAUDE EXECUTION START ==='']))
      log_file (py_lines [str ''Task: '' @ task, []])"
  from status obtain out fs' where "read_loop events log_file [] ?fs2 = Some (Inr (rc, out), fs')"
    using read_loop_completes by blast
  with assms(1-3) running show ?thesis
    by (auto simp: run_claude_backend_def Let_def)
qed

text \<open>
  Claim C5. For every execution call in which a subprocess runs to completion (the skill
  was read, the log file was opened, and the child is observed to exit with code \<open>rc\<close>),
  the backend returns a result whose \<open>success\<close> is true if and only if \<open>rc\<close> is zero, and
  whose \<open>error\<close> is the empty string for \<open>rc = 0\<close> and exactly \<open>Process failed\<close> for any
  other \<open>rc\<close>. This holds for the Gemini backend in both modes and for the Claude backend.
\<close>

theorem success_iff_exit_code_zero:
  assumes "load_skill_instructions (files w) (skill_path repo_root skill) = Inr instr"
    and "instr \<noteq> []"
    and "write_file (files w) log_file [] = Inr fs0"
  shows
    "(child_exit ev stream_output (gemini_cmd yolo) repo_root
        (gemini_prompt skill task instr (take 8 (artifact_uuid ev))) = Some rc \<longrightarrow>
      (\<exists>r w'. run_gemini_backend ev skill task repo_root yolo log_file stream_output w =
                 Some (Inr r, w') \<and>
               (b_success r \<longleftrightarrow> rc = 0) \<and>
               b_error r = (if rc = 0 then [] else str ''Process failed''))) \<and>
     (child_exit ev True claude_cmd repo_root (claude_prompt task instr) = Some rc \<longrightarrow>
      (\<exists>r w'. run_claude_backend ev skill task repo_root yolo log_file stream_output w =
                 Some (Inr r, w') \<and>
               (b_success r \<longleftrightarrow> rc = 0) \<and>
               b_error r = (if rc = 0 then [] else str ''Process failed'')))"
proof (intro conjI impI)
  assume "child_exit ev stream_output (gemini_cmd yolo) repo_root
        (gemini_prompt skill task instr (take 8 (artifact_uuid ev))) = Some rc"
  from gemini_completes[OF assms this] obtain out fs where
    "run_gemini_backend ev skill task repo_root yolo log_file stream_output w =
       Some (Inr (gemini_result rc out), spawn w fs)" by blast
  then show "\<exists>r w'. run_gemini_backend ev skill task repo_root yolo log_file stream_output w =
                 Some (Inr r, w') \<and>
               (b_success r \<longleftrightarrow> rc = 0) \<and>
               b_error r = (if rc = 0 then [] else str ''Process failed'')"
    by (auto simp: gemini_result_def)
next
  assume "child_exit ev True claude_cmd repo_root (claude_prompt task instr) = Some rc"
  from claude_completes[OF assms this] obtain out fs where
    "run_claude_backend ev skill task repo_root yolo log_file stream_output w =
       Some (Inr (claude_result rc out), spawn w fs)" by blast
  then show "\<exists>r w'. run_claude_backend ev skill task repo_root yolo log_file stream_output w =
                 Some (Inr r, w') \<and>
               (b_success r \<longleftrightarrow> rc = 0) \<and>
               b_error r = (if rc = 0 then [] else str ''Process failed'')"
    by (auto simp: claude_result_def)
qed

text \<open>The example repository.\<close>

lemma ex_skill_path:
  "skill_path ex_root (str ''plan'') =
     Path (str ''/'') [str ''repo'', str ''.agent'', str ''skills'', str ''superpowers-plan'', str ''SKILL.md'']"
proof -
  have "47 \<notin> set (str ''plan'')" by (simp add: str_def)
  then show ?thesis by (simp add: skill_path_plain ex_root_def) (simp add: str_def)
qed

lemma ex_load_skill:
  "load_skill_instructions ex_files (skill_path ex_root (str ''plan'')) = Inr (str ''Plan the work.'')"
  unfolding ex_skill_path
  by (simp add: load_skill_instructions_def exists_def read_text_def os_stat_def ex_files_def str_def)

lemma ex_open_log: "write_file ex_files ex_log [] = Inr (ex_files(ex_log \<mapsto> File []))"
  by (simp add: write_file_def os_stat_def is_dir_def parent_def ex_log_def ex_files_def str_def)

lemma ex_child_exit: "child_exit ex_env by_line cmd dir inp = Some 0"
  by (simp add: child_exit_def ex_env_def ex_lines_def str_def RESULT_START_def RESULT_END_def)


lemma ex_child_exit2: "child_exit ex_env_exit2 by_line cmd dir inp = Some 2"
  by (simp add: child_exit_def ex_env_exit2_def ex_env_def str_def)

theorem success_iff_exit_code_zero_witness:
  "load_skill_instructions (files ex_world) (skill_path ex_root (str ''plan'')) =
     Inr (str ''Plan the work.'') \<and>
   str ''Plan the work.'' \<noteq> [] \<and>
   write_file (files ex_world) ex_log [] = Inr (ex_files(ex_log \<mapsto> File [])) \<and>
   child_exit ex_env True (gemini_cmd True) ex_root
     (gemini_prompt (str ''plan'') (str ''do it'') (str ''Plan the work.'')
        (take 8 (artifact_uuid ex_env))) = Some 0 \<and>
   (\<exists>r w'. run_gemini_backend ex_env (str ''plan'') (str ''do it'') ex_root True ex_log True ex_world =
              Some (Inr r, w') \<and> b_success r \<and> b_error r = []) \<and>
   child_exit ex_env_exit2 True claude_cmd ex_root
     (claude_prompt (str ''do it'') (str ''Plan the work.'')) = Some 2 \<and>
   (\<exists>r w'. run_claude_backend ex_env_exit2 (str ''plan'') (str ''do it'') ex_root True ex_log True ex_world =
              Some (Inr r, w') \<and> \<not> b_success r \<and> b_error r = str ''Process failed'')"
proof -
  have load: "load_skill_instructions (files ex_world) (skill_path ex_root (str ''plan'')) =
     Inr (str ''Plan the work.'')"
    by (simp add: ex_world_def ex_load_skill)
  have nonempty: "str ''Plan the work.'' \<noteq> []" by (simp add: str_def)
  have opened: "write_file (files ex_world) ex_log [] = Inr (ex_files(ex_log \<mapsto> File []))"
    by (simp add: ex_world_def ex_open_log)
  note thm0 = success_iff_exit_code_zero[OF load nonempty opened,
      where ev = ex_env and rc = 0 and stream_output = True and yolo = True and task = "str ''do it''"]
  note thm2 = success_iff_exit_code_zero[OF load nonempty opened,
      where ev = ex_env_exit2 and rc = 2 and stream_output = True and yolo = True and task = "str ''do it''"]
  from thm0 have "\<exists>r w'. run_gemini_backend ex_env (str ''plan'') (str ''do it'') ex_root True ex_log True ex_world =
              Some (Inr r, w') \<and> b_success r \<and> b_error r = []"
    by (simp add: ex_child_exit)
  moreover from thm2 have "\<exists>r w'. run_claude_backend ex_env_exit2 (str ''plan'') (str ''do it'') ex_root True ex_log True ex_world =
              Some (Inr r, w') \<and> \<not> b_success r \<and> b_error r = str ''Process failed''"
    by (simp add: ex_child_exit2)
  ultimately show ?thesis
    using load nonempty opened by (simp add: ex_child_exit ex_child_exit2)
qed

section \<open>The output field\<close>

text \<open>What a backend captures: the lines read, concatenated, or the standard output.\<close>

lemma gemini_streamed_lines:
  assumes "load_skill_instructions (files w) (skill_path repo_root skill) = Inr instr"
    and "instr \<noteq> []"
    and "write_file (files w) log_file [] = Inr fs0"
    and "popen ev (gemini_cmd yolo) repo_root
           (gemini_prompt skill task instr (take 8 (artifact_uuid ev))) =
         Running (map (\<lambda>l. Read l None) ls @ Read [] (Some rc) # rest)"
    and "\<forall>l\<in>set ls. l \<noteq> []"
  shows "\<exists>w'. run_gemini_backend ev skill task repo_root yolo log_file True w =
           Some (Inr (gemini_result rc (concat ls)), w')"
  using assms(1-4) by (simp add: run_gemini_backend_def Let_def read_loop_lines[OF assms(5)])

lemma gemini_captured:
  assumes "load_skill_instructions (files w) (skill_path repo_root skill) = Inr instr"
    and "instr \<noteq> []"
    and "write_file (files w) log_file [] = Inr fs0"
    and "run ev (gemini_cmd yolo) repo_root
           (gemini_prompt skill task instr (take 8 (artifact_uuid ev))) = Completed out err rc"
  shows "\<exists>w'. run_gemini_backend ev skill task repo_root yolo log_file False w =
           Some (Inr (gemini_result rc out), w')"
  using assms by (simp add: run_gemini_backend_def Let_def)

lemma claude_streamed_lines:
  assumes "load_skill_instructions (files w) (skill_path repo_root skill) = Inr instr"
    and "instr \<noteq> []"
    and "write_file (files w) log_file [] = Inr fs0"
    and "popen ev claude_cmd repo_root (claude_prompt task instr) =
         Running (map (\<lambda>l. Read l None) ls @ Read [] (Some rc) # rest)"
    and "\<forall>l\<in>set ls. l \<noteq> []"
  shows "\<exists>w'. run_claude_backend ev skill task repo_root yolo log_file stream_output w =
           Some (Inr (claude_result rc (concat ls)), w')"
  using assms(1-4) by (simp add: run_claude_backend_def Let_def read_loop_lines[OF assms(5)])

lemma gemini_output:
  assumes "run_gemini_backend ev skill task repo_root yolo log_file stream_output w = Some (Inr r, w')"
    and "b_full_log r = Some out"
  shows "b_output r = Some (extract_result out)"
  using assms(1)
proof (cases rule: gemini_backendE)
  case not_found
  with assms(2) show ?thesis by (simp add: skill_not_found_def)
next
  case (child_done instr returncode out' fs)
  with assms(2) show ?thesis by (simp add: gemini_result_def)
qed simp_all

lemma claude_output:
  assumes "run_claude_backend ev skill task repo_root yolo log_file stream_output w = Some (Inr r, w')"
    and "b_full_log r = Some out"
  shows "b_output r = Some out"
  using assms(1)
proof (cases rule: claude_backendE)
  case not_found
  with assms(2) show ?thesis by (simp add: skill_not_found_def)
next
  case (child_done instr returncode out' fs)
  with assms(2) show ?thesis by (simp add: claude_result_def)
qed simp_all

text \<open>
  Claim C1, amended. For every call of the Gemini backend that returns a result with a
  captured output (the key \<open>full_log\<close>): when the captured output holds the start marker
  and, after its first occurrence, the end marker, the \<open>output\<close> field is the text between
  the first start marker and the first end marker after it, with surrounding whitespace
  trimmed; when the start marker is absent, the \<open>output\<close> field is the captured output
  verbatim. For every call of the Claude backend the \<open>output\<close> field is the captured
  output verbatim, markers or not: that backend extracts nothing.
\<close>

theorem output_between_markers:
  "(run_gemini_backend ev skill task repo_root yolo log_file stream_output w = Some (Inr r, w') \<and>
    b_full_log r = Some out \<longrightarrow>
      (\<forall>pre mid post.
         out = pre @ RESULT_START @ mid @ RESULT_END @ post \<and> leftmost RESULT_START pre out \<and>
         leftmost RESULT_END mid (mid @ RESULT_END @ post) \<longrightarrow>
         b_output r = Some (py_strip mid)) \<and>
      (\<not> py_in RESULT_START out \<longrightarrow> b_output r = Some out)) \<and>
   (run_claude_backend ev skill task repo_root yolo log_file stream_output w = Some (Inr r, w') \<and>
    b_full_log r = Some out \<longrightarrow> b_output r = Some out)"
  by (auto simp: gemini_output claude_output extract_between extract_absent)


lemma ex_lines_nonempty: "\<forall>l\<in>set ex_lines. l \<noteq> []"
  by (simp add: ex_lines_def RESULT_START_def RESULT_END_def str_def)

lemma ex_output_shape:
  "concat ex_lines =
     (str ''noise'' @ [10]) @ RESULT_START @ ([10] @ str ''DONE'' @ [10]) @ RESULT_END @
     ([10] @ str ''more noise'')"
  by (simp add: ex_lines_def)

lemma ex_between: "py_strip ([10] @ str ''DONE'' @ [10]) = str ''DONE''"
  by (simp add: py_strip_def py_isspace_def str_def)

lemma ex_first_start: "leftmost RESULT_START (str ''noise'' @ [10]) (concat ex_lines)"
proof -
  have "split_at_first RESULT_START (concat ex_lines) =
      Some (str ''noise'' @ [10], ([10] @ str ''DONE'' @ [10]) @ RESULT_END @ ([10] @ str ''more noise''))"
    by (simp add: ex_lines_def RESULT_START_def RESULT_END_def str_def)
  then show ?thesis
    unfolding leftmost_def by (blast dest: split_at_first_leftmost)
qed

lemma ex_first_end:
  "leftmost RESULT_END ([10] @ str ''DONE'' @ [10])
     (([10] @ str ''DONE'' @ [10]) @ RESULT_END @ ([10] @ str ''more noise''))"
proof -
  have "split_at_first RESULT_END (([10] @ str ''DONE'' @ [10]) @ RESULT_END @ ([10] @ str ''more noise'')) =
      Some ([10] @ str ''DONE'' @ [10], [10] @ str ''more noise'')"
    by (simp add: RESULT_END_def str_def)
  then show ?thesis
    unfolding leftmost_def by (blast dest: split_at_first_leftmost)
qed

lemma ex_popen:
  "popen ex_env cmd dir inp = Running (map (\<lambda>l. Read l None) ex_lines @ Read [] (Some 0) # [])"
  by (simp add: ex_env_def)

lemma ex_gemini_run:
  "\<exists>w'. run_gemini_backend ex_env (str ''plan'') (str ''do it'') ex_root True ex_log True ex_world =
          Some (Inr (gemini_result 0 (concat ex_lines)), w')"
proof (rule gemini_streamed_lines)
  show "load_skill_instructions (files ex_world) (skill_path ex_root (str ''plan'')) =
      Inr (str ''Plan the work.'')"
    by (simp add: ex_world_def ex_load_skill)
  show "str ''Plan the work.'' \<noteq> []" by (simp add: str_def)
  show "write_file (files ex_world) ex_log [] = Inr (ex_files(ex_log \<mapsto> File []))"
    by (simp add: ex_world_def ex_open_log)
  show "popen ex_env (gemini_cmd True) ex_root
      (gemini_prompt (str ''plan'') (str ''do it'') (str ''Plan the work.'')
        (take 8 (artifact_uuid ex_env))) =
      Running (map (\<lambda>l. Read l None) ex_lines @ Read [] (Some 0) # [])"
    by (rule ex_popen)
  show "\<forall>l\<in>set ex_lines. l \<noteq> []" by (rule ex_lines_nonempty)
qed

lemma ex_claude_run:
  "\<exists>w'. run_claude_backend ex_env (str ''plan'') (str ''do it'') ex_root True ex_log True ex_world =
          Some (Inr (claude_result 0 (concat ex_lines)), w')"
proof (rule claude_streamed_lines)
  show "load_skill_instructions (files ex_world) (skill_path ex_root (str ''plan'')) =
      Inr (str ''Plan the work.'')"
    by (simp add: ex_world_def ex_load_skill)
  show "str ''Plan the work.'' \<noteq> []" by (simp add: str_def)
  show "write_file (files ex_world) ex_log [] = Inr (ex_files(ex_log \<mapsto> File []))"
    by (simp add: ex_world_def ex_open_log)
  show "popen ex_env claude_cmd ex_root (claude_prompt (str ''do it'') (str ''Plan the work.'')) =
      Running (map (\<lambda>l. Read l None) ex_lines @ Read [] (Some 0) # [])"
    by (rule ex_popen)
  show "\<forall>l\<in>set ex_lines. l \<noteq> []" by (rule ex_lines_nonempty)
qed

theorem output_between_markers_witness:
  "(\<exists>w'. run_gemini_backend ex_env (str ''plan'') (str ''do it'') ex_root True ex_log True ex_world =
          Some (Inr (gemini_result 0 (concat ex_lines)), w')) \<and>
   b_full_log (gemini_result 0 (concat ex_lines)) = Some (concat ex_lines) \<and>
   concat ex_lines =
     (str ''noise'' @ [10]) @ RESULT_START @ ([10] @ str ''DONE'' @ [10]) @ RESULT_END @
     ([10] @ str ''more noise'') \<and>
   leftmost RESULT_START (str ''noise'' @ [10]) (concat ex_lines) \<and>
   leftmost RESULT_END ([10] @ str ''DONE'' @ [10])
     (([10] @ str ''DONE'' @ [10]) @ RESULT_END @ ([10] @ str ''more noise'')) \<and>
   b_output (gemini_result 0 (concat ex_lines)) = Some (str ''DONE'')"
proof -
  from ex_gemini_run obtain w' where
    run: "run_gemini_backend ex_env (str ''plan'') (str ''do it'') ex_root True ex_log True ex_world =
          Some (Inr (gemini_result 0 (concat ex_lines)), w')" ..
  have log: "b_full_log (gemini_result 0 (concat ex_lines)) = Some (concat ex_lines)"
    by (simp add: gemini_result_def)
  from output_between_markers[of ex_env "str ''plan''" "str ''do it''" ex_root True ex_log True
      ex_world "gemini_result 0 (concat ex_lines)" w' "concat ex_lines"] run log
  have "\<forall>pre mid post.
         concat ex_lines = pre @ RESULT_START @ mid @ RESULT_END @ post \<and>
         leftmost RESULT_START pre (concat ex_lines) \<and>
         leftmost RESULT_END mid (mid @ RESULT_END @ post) \<longrightarrow>
         b_output (gemini_result 0 (concat ex_lines)) = Some (py_strip mid)"
    by blast
  with ex_output_shape ex_first_start ex_first_end
  have "b_output (gemini_result 0 (concat ex_lines)) = Some (py_strip ([10] @ str ''DONE'' @ [10]))"
    by blast
  with ex_gemini_run log ex_output_shape ex_first_start ex_first_end show ?thesis
    by (simp only: ex_between simp_thms)
qed

text \<open>
  Claim C1 as stated fails for the Claude backend: its child prints the example of the
  specification, both markers included, and the \<open>output\<close> field is the whole output, not
  \<open>DONE\<close>.
\<close>

theorem claude_output_not_extracted:
  "map_option fst
     (run_claude_backend ex_env (str ''plan'') (str ''do it'') ex_root True ex_log True ex_world) =
     Some (Inr (claude_result 0 (concat ex_lines))) \<and>
   concat ex_lines =
     (str ''noise'' @ [10]) @ RESULT_START @ ([10] @ str ''DONE'' @ [10]) @ RESULT_END @
     ([10] @ str ''more noise'') \<and>
   py_in RESULT_START (concat ex_lines) \<and> py_in RESULT_END (concat ex_lines) \<and>
   py_strip ([10] @ str ''DONE'' @ [10]) = str ''DONE'' \<and>
   b_output (claude_result 0 (concat ex_lines)) = Some (concat ex_lines) \<and>
   concat ex_lines \<noteq> str ''DONE''"
proof -
  from ex_claude_run have
    "map_option fst
     (run_claude_backend ex_env (str ''plan'') (str ''do it'') ex_root True ex_log True ex_world) =
     Some (Inr (claude_result 0 (concat ex_lines)))"
    by auto
  moreover have "py_in RESULT_START (concat ex_lines)"
    unfolding py_in_iff using ex_output_shape by blast
  moreover have "py_in RESULT_END (concat ex_lines)"
    unfolding py_in_iff using ex_output_shape by (metis append.assoc)
  moreover have "b_output (claude_result 0 (concat ex_lines)) = Some (concat ex_lines)"
    by (simp add: claude_result_def)
  moreover have "concat ex_lines \<noteq> str ''DONE''"
    by (simp add: ex_lines_def str_def)
  ultimately show ?thesis
    using ex_output_shape ex_between by simp
qed


section \<open>The executor, case by case\<close>

lemma spawned_spawn [simp]: "spawned (spawn w fs) = Suc (spawned w)"
  by (simp add: spawn_def)

lemma files_spawn [simp]: "files (spawn w fs) = fs"
  by (simp add: spawn_def)

lemma dispatchE [consumes 1, case_names no_child child]:
  assumes "dispatch ev backend skill task repo_root yolo log_file background w = Some (bres, w')"
  obtains
    (no_child) "spawned w' = spawned w" "\<And>r. bres = Inr r \<Longrightarrow> \<not> b_success r \<and> b_output r = None"
  | (child) "spawned w' = Suc (spawned w)" "is_file (files w') log_file"
proof (cases "backend = JStr (str ''claude'')")
  case True
  with assms have
    "run_claude_backend ev skill task repo_root yolo log_file (\<not> background) w = Some (bres, w')"
    by (simp add: dispatch_def)
  then show ?thesis
  proof (cases rule: claude_backendE)
    case not_found
    then show ?thesis by (intro no_child) (auto simp: skill_not_found_def)
  qed (auto intro: no_child child)
next
  case False
  with assms have
    "run_gemini_backend ev skill task repo_root yolo log_file (\<not> background) w = Some (bres, w')"
    by (simp add: dispatch_def)
  then show ?thesis
  proof (cases rule: gemini_backendE)
    case not_found
    then show ?thesis by (intro no_child) (auto simp: skill_not_found_def)
  qed (auto intro: no_child child)
qed

lemma execute_task_dispatches:
  assumes "get_backend (load_config lib ev (files w) (Some (agent_dir repo_root))) = Inr backend"
    and "mkdir_parents (files w) (log_dir repo_root) = Inr fs1"
    and "announce output_format background backend = None"
  shows "execute_task lib ev skill task repo_root yolo background output_format w =
    summarize ev (log_path lib ev repo_root backend skill) backend
      (dispatch ev backend skill task repo_root yolo (log_path lib ev repo_root backend skill)
         background (w\<lparr>files := fs1\<rparr>))"
  using assms by (simp add: execute_task_def Let_def)

lemma summarize_never_raises: "summarize ev log_file backend outcome \<noteq> Some (Inl e, w')"
  by (auto simp: summarize_def split: option.splits sum.splits prod.splits)

lemma summarize_failure:
  "summarize ev log_file backend (Some (Inl e, w')) = Some (Inr (failure ev log_file backend e), w')"
  by (simp add: summarize_def)

lemma summarizeE:
  assumes "summarize ev log_file backend outcome = Some (res, w')"
  obtains bres r where "outcome = Some (bres, w')" "res = Inr r"
    "\<And>br. bres = Inr br \<Longrightarrow> r_success r \<Longrightarrow> b_success br"
    "\<And>br. bres = Inr br \<Longrightarrow> b_output br = None \<Longrightarrow> \<not> r_success r"
    "\<And>e. bres = Inl e \<Longrightarrow> \<not> r_success r"
  using assms
  by (auto simp: summarize_def failure_def split: option.splits sum.splits prod.splits)

lemma execute_taskE [consumes 1, case_names escaped dispatched]:
  assumes "execute_task lib ev skill task repo_root yolo background output_format w = Some (res, w')"
  obtains
    (escaped) e where "res = Inl e" "spawned w' = spawned w"
  | (dispatched) backend fs1 where
      "get_backend (load_config lib ev (files w) (Some (agent_dir repo_root))) = Inr backend"
      "mkdir_parents (files w) (log_dir repo_root) = Inr fs1"
      "announce output_format background backend = None"
      "summarize ev (log_path lib ev repo_root backend skill) backend
         (dispatch ev backend skill task repo_root yolo (log_path lib ev repo_root backend skill)
            background (w\<lparr>files := fs1\<rparr>)) = Some (res, w')"
proof (cases "get_backend (load_config lib ev (files w) (Some (agent_dir repo_root)))")
  case (Inl e)
  with assms have "res = Inl e" "w' = w" by (simp_all add: execute_task_def Let_def)
  then show ?thesis by (intro escaped) auto
next
  case (Inr backend)
  note backend = this
  show ?thesis
  proof (cases "mkdir_parents (files w) (log_dir repo_root)")
    case (Inl e)
    with assms backend have "res = Inl e" "w' = w" by (simp_all add: execute_task_def Let_def)
    then show ?thesis by (intro escaped) auto
  next
    case (Inr fs1)
    note made = this
    show ?thesis
    proof (cases "announce output_format background backend")
      case (Some e)
      with assms backend made have "res = Inl e" "w' = w\<lparr>files := fs1\<rparr>"
        by (simp_all add: execute_task_def Let_def)
      then show ?thesis by (intro escaped) auto
    next
      case None
      with assms backend made show ?thesis
        by (intro dispatched) (simp_all add: execute_task_def Let_def)
    qed
  qed
qed


section \<open>The executor: exceptions, the log file, the subprocess, the backend\<close>

text \<open>
  Claim C3, amended. For every input for which the steps before the \<open>try\<close> raise nothing
  (the loaded configuration is a mapping, the log directory is created, and the
  announcement prints), \<open>execute_task\<close> lets no exception escape to its caller, and any
  exception raised during dispatch and backend execution is caught and converted into a
  failure result: \<open>success\<close> false, \<open>output\<close> empty, \<open>error\<close> the exception's message. An
  exception of the steps before the \<open>try\<close> is not caught.
\<close>

theorem backend_exceptions_become_failures:
  assumes "get_backend (load_config lib ev (files w) (Some (agent_dir repo_root))) = Inr backend"
    and "mkdir_parents (files w) (log_dir repo_root) = Inr fs1"
    and "announce output_format background backend = None"
  shows
    "(\<forall>e w'. execute_task lib ev skill task repo_root yolo background output_format w \<noteq>
        Some (Inl e, w')) \<and>
     (\<forall>e w'. dispatch ev backend skill task repo_root yolo (log_path lib ev repo_root backend skill)
               background (w\<lparr>files := fs1\<rparr>) = Some (Inl e, w') \<longrightarrow>
        (\<exists>r. execute_task lib ev skill task repo_root yolo background output_format w =
               Some (Inr r, w') \<and>
             \<not> r_success r \<and> r_output r = [] \<and> r_error r = exn_str e))"
  unfolding execute_task_dispatches[OF assms]
  by (auto simp: summarize_never_raises summarize_failure failure_def)

text \<open>
  Claim C4, amended. For every execution call that returns and during which a subprocess
  was spawned, the log file that the result names exists after the call, also when the
  result is a failure, because the log file is opened before the backend spawns its child.
  (A call that returns before the open, as for a missing skill, creates no log file.)
\<close>

theorem log_file_exists_after_spawn:
  assumes "execute_task lib ev skill task repo_root yolo background output_format w = Some (res, w')"
    and "spawned w' \<noteq> spawned w"
  shows "\<exists>backend r.
    get_backend (load_config lib ev (files w) (Some (agent_dir repo_root))) = Inr backend \<and>
    res = Inr r \<and> r_log_file r = path_str (log_path lib ev repo_root backend skill) \<and>
    is_file (files w') (log_path lib ev repo_root backend skill) \<and>
    exists (files w') (log_path lib ev repo_root backend skill)"
  using assms(1)
proof (cases rule: execute_taskE)
  case (escaped e)
  with assms(2) show ?thesis by simp
next
  case (dispatched backend fs1)
  let ?log = "log_path lib ev repo_root backend skill"
  from dispatched(4) obtain bres r where
    ran: "dispatch ev backend skill task repo_root yolo ?log background (w\<lparr>files := fs1\<rparr>) =
      Some (bres, w')"
    and res: "res = Inr r"
    by (rule summarizeE)
  from dispatched(4) res have "r_log_file r = path_str ?log"
    by (auto simp: summarize_def failure_def split: option.splits sum.splits prod.splits)
  moreover from ran have "is_file (files w') ?log"
  proof (cases rule: dispatchE)
    case no_child
    with assms(2) show ?thesis by simp
  next
    case child
    then show ?thesis by simp
  qed
  ultimately show ?thesis
    using dispatched(1) res by (auto dest: is_file_exists)
qed

lemma dispatch_missing_skill:
  "load_skill_instructions (files w) (skill_path repo_root skill) = Inr [] \<Longrightarrow>
   dispatch ev backend skill task repo_root yolo log_file background w =
     Some (Inr (skill_not_found (skill_path repo_root skill)), w)"
  by (simp add: dispatch_def gemini_missing_skill claude_missing_skill)

text \<open>
  Claim C8, amended. For every call to \<open>execute_task\<close> that returns, at most one
  subprocess is spawned during the call; exactly one when the result has \<open>success\<close> true;
  and none when the skill's instruction file is missing or empty.
\<close>

theorem at_most_one_subprocess:
  assumes "execute_task lib ev skill task repo_root yolo background output_format w = Some (res, w')"
  shows "(spawned w' = spawned w \<or> spawned w' = Suc (spawned w)) \<and>
    ((\<exists>r. res = Inr r \<and> r_success r) \<longrightarrow> spawned w' = Suc (spawned w)) \<and>
    (\<forall>fs1. mkdir_parents (files w) (log_dir repo_root) = Inr fs1 \<and>
           load_skill_instructions fs1 (skill_path repo_root skill) = Inr [] \<longrightarrow>
           spawned w' = spawned w)"
  using assms
proof (cases rule: execute_taskE)
  case (escaped e)
  then show ?thesis by simp
next
  case (dispatched backend fs1)
  let ?log = "log_path lib ev repo_root backend skill"
  from dispatched(4) obtain bres r where
    ran: "dispatch ev backend skill task repo_root yolo ?log background (w\<lparr>files := fs1\<rparr>) =
      Some (bres, w')"
    and res: "res = Inr r"
    and ok: "\<And>br. bres = Inr br \<Longrightarrow> r_success r \<Longrightarrow> b_success br"
    and raised: "\<And>e. bres = Inl e \<Longrightarrow> \<not> r_success r"
    by (rule summarizeE) blast
  have count: "spawned w' = spawned w \<or> spawned w' = Suc (spawned w)"
    using ran by (cases rule: dispatchE) simp_all
  have success: "r_success r \<Longrightarrow> spawned w' = Suc (spawned w)"
    using ran
  proof (cases rule: dispatchE)
    case no_child
    assume "r_success r"
    with no_child(2) ok raised show ?thesis by (cases bres) auto
  next
    case child
    then show ?thesis by simp
  qed
  have missing: "spawned w' = spawned w"
    if "load_skill_instructions fs1 (skill_path repo_root skill) = Inr []"
  proof -
    from that have "load_skill_instructions (files (w\<lparr>files := fs1\<rparr>))
        (skill_path repo_root skill) = Inr []" by simp
    from dispatch_missing_skill[OF this, of ev backend task yolo ?log background] ran
    have "w' = w\<lparr>files := fs1\<rparr>" by simp
    then show ?thesis by simp
  qed
  from count success missing res dispatched(2) show ?thesis by auto
qed


section \<open>Runs of the executor in the example repository\<close>

lemma ex_log_dir:
  "log_dir ex_root = Path (str ''/'') [str ''repo'', str ''artifacts'', str ''superpowers'', str ''subagents'']"
  by (simp add: log_dir_def path_join_def parse_anchor_def parse_parts_def ex_root_def str_def)

lemma ex_config_absent:
  "load_config ex_lib ev ex_files (Some (agent_dir ex_root)) = default_config"
  by (simp add: load_config_def config_root_def path_eval ex_files_def ex_root_def)

lemma ex_backend_default: "get_backend default_config = Inr (JStr (str ''gemini''))"
  by (simp add: get_backend_def default_config_def)

lemma ex_mkdir_log_dir: "mkdir_parents ex_files (log_dir ex_root) = Inr ex_files_logdir"
  unfolding ex_log_dir
  by (simp add: mkdir_parents.simps mkdir_exist_ok_def os_mkdir_def os_stat_def is_dir_def parent_def
      ex_files_def ex_files_logdir_def str_def)

lemma ex_mkdir_blocked:
  "mkdir_parents (files ex_world_blocked) (log_dir ex_root) = Inl (OSError ENOTDIR (log_dir ex_root))"
  unfolding ex_log_dir
  by (simp add: mkdir_parents.simps mkdir_exist_ok_def os_mkdir_def os_stat_def is_dir_def parent_def
      ex_world_blocked_def ex_files_def str_def)

lemma ex_log_path:
  "47 \<notin> set skill \<Longrightarrow> skill \<noteq> [] \<Longrightarrow>
   log_path ex_lib ex_env ex_root (JStr (str ''gemini'')) skill =
     Path (str ''/'') [str ''repo'', str ''artifacts'', str ''superpowers'', str ''subagents'',
       str ''gemini-'' @ skill @ str ''-20260101-120000-01234567.log'']"
proof -
  assume plain: "47 \<notin> set skill" and "skill \<noteq> []"
  let ?name = "str ''gemini-'' @ skill @ str ''-20260101-120000-01234567.log''"
  have name: "py_format ex_lib (JStr (str ''gemini'')) @ str ''-'' @ skill @ str ''-'' @
      timestamp ex_env @ str ''-'' @ take 8 (subagent_uuid ex_env) @ str ''.log'' = ?name"
    by (simp add: py_format_def ex_env_def str_def)
  have "47 \<notin> set ?name" using plain by (simp add: str_def)
  then have "py_split_char 47 ?name = [?name]" by (rule split_char_absent)
  moreover have "?name \<noteq> []" "?name \<noteq> str ''.''" by (simp_all add: str_def)
  moreover have "parse_anchor ?name = []" by (simp add: parse_anchor_def str_def)
  ultimately show ?thesis
    unfolding log_path_def name ex_log_dir
    by (simp add: path_join_def parse_parts_def)
qed

lemma ex_config_absent_blocked:
  "load_config ex_lib ev (files ex_world_blocked) (Some (agent_dir ex_root)) = default_config"
  by (simp add: load_config_def config_root_def path_eval ex_world_blocked_def ex_files_def ex_root_def)

text \<open>
  Claim C3 as stated fails: where \<open>/repo/artifacts\<close> is a regular file, creating the log
  directory raises, before the \<open>try\<close>, and the exception escapes \<open>execute_task\<close>.
\<close>

theorem mkdir_error_escapes:
  "execute_task ex_lib ex_env (str ''plan'') (str ''do it'') ex_root True False (str ''text'')
     ex_world_blocked =
   Some (Inl (OSError ENOTDIR (log_dir ex_root)), ex_world_blocked)"
  by (simp add: execute_task_def ex_config_absent_blocked ex_backend_default ex_mkdir_blocked)

lemma ex_missing_after_mkdir:
  "load_skill_instructions ex_files_logdir (skill_path ex_root (str ''nonexistent'')) = Inr []"
proof -
  have "47 \<notin> set (str ''nonexistent'')" by (simp add: str_def)
  then show ?thesis
    by (simp add: skill_path_plain load_skill_instructions_def exists_def os_stat_def
        ex_files_logdir_def ex_files_def ex_root_def str_def)
qed

lemma ex_missing_log:
  "log_path ex_lib ex_env ex_root (JStr (str ''gemini'')) (str ''nonexistent'') =
     Path (str ''/'') [str ''repo'', str ''artifacts'', str ''superpowers'', str ''subagents'',
       str ''gemini-nonexistent-20260101-120000-01234567.log'']"
proof -
  have "47 \<notin> set (str ''nonexistent'')" "str ''nonexistent'' \<noteq> []" by (simp_all add: str_def)
  then show ?thesis by (simp add: ex_log_path) (simp add: str_def)
qed

lemma ex_missing_run:
  "execute_task ex_lib ex_env (str ''nonexistent'') (str ''do it'') ex_root True False (str ''text'')
     ex_world =
   Some (Inr (failure ex_env
                (log_path ex_lib ex_env ex_root (JStr (str ''gemini'')) (str ''nonexistent''))
                (JStr (str ''gemini'')) (KeyError (str ''output''))),
         ex_world\<lparr>files := ex_files_logdir\<rparr>)"
proof -
  have backend: "get_backend (load_config ex_lib ex_env (files ex_world) (Some (agent_dir ex_root))) =
      Inr (JStr (str ''gemini''))"
    by (simp add: ex_world_def ex_config_absent ex_backend_default)
  have made: "mkdir_parents (files ex_world) (log_dir ex_root) = Inr ex_files_logdir"
    by (simp add: ex_world_def ex_mkdir_log_dir)
  have quiet: "announce (str ''text'') False (JStr (str ''gemini'')) = None"
    by (simp add: announce_def)
  have missing: "load_skill_instructions (files (ex_world\<lparr>files := ex_files_logdir\<rparr>))
      (skill_path ex_root (str ''nonexistent'')) = Inr []"
    by (simp add: ex_missing_after_mkdir)
  show ?thesis
    unfolding execute_task_dispatches[OF backend made quiet] dispatch_missing_skill[OF missing]
    by (simp add: summarize_def skill_not_found_def)
qed

text \<open>
  Claim C4 as stated fails: for a missing skill the call returns a failure result that
  names a log file, and no such file exists afterwards.
\<close>

theorem no_log_file_for_missing_skill:
  "execute_task ex_lib ex_env (str ''nonexistent'') (str ''do it'') ex_root True False (str ''text'')
     ex_world =
   Some (Inr (failure ex_env
                (log_path ex_lib ex_env ex_root (JStr (str ''gemini'')) (str ''nonexistent''))
                (JStr (str ''gemini'')) (KeyError (str ''output''))),
         ex_world\<lparr>files := ex_files_logdir\<rparr>) \<and>
   r_log_file (failure ex_env
                (log_path ex_lib ex_env ex_root (JStr (str ''gemini'')) (str ''nonexistent''))
                (JStr (str ''gemini'')) (KeyError (str ''output''))) =
     str ''/repo/artifacts/superpowers/subagents/gemini-nonexistent-20260101-120000-01234567.log'' \<and>
   \<not> exists (files (ex_world\<lparr>files := ex_files_logdir\<rparr>))
       (log_path ex_lib ex_env ex_root (JStr (str ''gemini'')) (str ''nonexistent''))"
proof -
  have "\<not> exists ex_files_logdir
       (log_path ex_lib ex_env ex_root (JStr (str ''gemini'')) (str ''nonexistent''))"
    unfolding ex_missing_log
    by (simp add: exists_def os_stat_def ex_files_logdir_def ex_files_def str_def)
  moreover have "r_log_file (failure ex_env
                (log_path ex_lib ex_env ex_root (JStr (str ''gemini'')) (str ''nonexistent''))
                (JStr (str ''gemini'')) (KeyError (str ''output''))) =
     str ''/repo/artifacts/superpowers/subagents/gemini-nonexistent-20260101-120000-01234567.log''"
    unfolding ex_missing_log by (simp add: failure_def path_str_def str_def)
  ultimately show ?thesis using ex_missing_run by simp
qed

text \<open>
  Claim C8 as stated fails: for a missing skill the call returns and has spawned no
  subprocess.
\<close>

theorem no_subprocess_for_missing_skill:
  "execute_task ex_lib ex_env (str ''nonexistent'') (str ''do it'') ex_root True False (str ''text'')
     ex_world =
   Some (Inr (failure ex_env
                (log_path ex_lib ex_env ex_root (JStr (str ''gemini'')) (str ''nonexistent''))
                (JStr (str ''gemini'')) (KeyError (str ''output''))),
         ex_world\<lparr>files := ex_files_logdir\<rparr>) \<and>
   spawned (ex_world\<lparr>files := ex_files_logdir\<rparr>) = spawned ex_world \<and>
   spawned ex_world = 0"
  using ex_missing_run by (simp add: ex_world_def)

lemma gemini_no_spawn:
  assumes "load_skill_instructions (files w) (skill_path repo_root skill) = Inr instr"
    and "instr \<noteq> []"
    and "write_file (files w) log_file [] = Inr fs0"
    and "popen ev (gemini_cmd yolo) repo_root
           (gemini_prompt skill task instr (take 8 (artifact_uuid ev))) = PopenRaises e"
  shows "\<exists>w'. run_gemini_backend ev skill task repo_root yolo log_file True w = Some (Inl e, w')"
  using assms by (simp add: run_gemini_backend_def Let_def)

lemma ex_plan_after_mkdir:
  "load_skill_instructions ex_files_logdir (skill_path ex_root (str ''plan'')) =
     Inr (str ''Plan the work.'')"
  unfolding ex_skill_path
  by (simp add: load_skill_instructions_def exists_def read_text_def os_stat_def
      ex_files_logdir_def ex_files_def str_def)

lemma ex_plan_log:
  "log_path ex_lib ex_env ex_root (JStr (str ''gemini'')) (str ''plan'') =
     Path (str ''/'') [str ''repo'', str ''artifacts'', str ''superpowers'', str ''subagents'',
       str ''gemini-plan-20260101-120000-01234567.log'']"
proof -
  have "47 \<notin> set (str ''plan'')" "str ''plan'' \<noteq> []" by (simp_all add: str_def)
  then show ?thesis by (simp add: ex_log_path) (simp add: str_def)
qed

lemma ex_open_plan_log:
  "\<exists>fs0. write_file ex_files_logdir
     (log_path ex_lib ex_env ex_root (JStr (str ''gemini'')) (str ''plan'')) [] = Inr fs0"
  unfolding ex_plan_log
  by (simp add: write_file_def os_stat_def is_dir_def parent_def ex_files_logdir_def ex_files_def
      str_def)

lemma ex_log_path_no_spawn:
  "log_path ex_lib ex_env_no_spawn repo_root backend skill =
   log_path ex_lib ex_env repo_root backend skill"
  by (simp add: log_path_def ex_env_no_spawn_def)

lemma ex_prelude:
  "get_backend (load_config ex_lib ev (files ex_world) (Some (agent_dir ex_root))) =
     Inr (JStr (str ''gemini''))"
  "mkdir_parents (files ex_world) (log_dir ex_root) = Inr ex_files_logdir"
  "announce (str ''text'') False (JStr (str ''gemini'')) = None"
  by (simp_all add: ex_world_def ex_config_absent ex_backend_default ex_mkdir_log_dir announce_def)

theorem backend_exceptions_become_failures_witness:
  "get_backend (load_config ex_lib ex_env_no_spawn (files ex_world) (Some (agent_dir ex_root))) =
     Inr (JStr (str ''gemini'')) \<and>
   mkdir_parents (files ex_world) (log_dir ex_root) = Inr ex_files_logdir \<and>
   announce (str ''text'') False (JStr (str ''gemini'')) = None \<and>
   (\<exists>r w'. execute_task ex_lib ex_env_no_spawn (str ''plan'') (str ''do it'') ex_root True False
             (str ''text'') ex_world = Some (Inr r, w') \<and>
           \<not> r_success r \<and> r_output r = [] \<and> r_error r = str ''cannot spawn'')"
proof -
  let ?log = "log_path ex_lib ex_env_no_spawn ex_root (JStr (str ''gemini'')) (str ''plan'')"
  let ?w1 = "ex_world\<lparr>files := ex_files_logdir\<rparr>"
  obtain fs0 where opened: "write_file (files ?w1) ?log [] = Inr fs0"
    using ex_open_plan_log by (auto simp: ex_log_path_no_spawn)
  have load: "load_skill_instructions (files ?w1) (skill_path ex_root (str ''plan'')) =
      Inr (str ''Plan the work.'')"
    by (simp add: ex_plan_after_mkdir)
  have nonempty: "str ''Plan the work.'' \<noteq> []" by (simp add: str_def)
  have refused: "popen ex_env_no_spawn (gemini_cmd True) ex_root
      (gemini_prompt (str ''plan'') (str ''do it'') (str ''Plan the work.'')
         (take 8 (artifact_uuid ex_env_no_spawn))) = PopenRaises (Raised (str ''cannot spawn''))"
    by (simp add: ex_env_no_spawn_def)
  from gemini_no_spawn[OF load nonempty opened refused] obtain w' where
    "run_gemini_backend ex_env_no_spawn (str ''plan'') (str ''do it'') ex_root True ?log True ?w1 =
       Some (Inl (Raised (str ''cannot spawn'')), w')" ..
  then have raised: "dispatch ex_env_no_spawn (JStr (str ''gemini'')) (str ''plan'') (str ''do it'')
      ex_root True ?log False ?w1 = Some (Inl (Raised (str ''cannot spawn'')), w')"
    by (simp add: dispatch_def str_def)
  from backend_exceptions_become_failures[OF ex_prelude(1)[of ex_env_no_spawn] ex_prelude(2,3),
      where skill = "str ''plan''" and task = "str ''do it''" and yolo = True] raised
  have "\<exists>r. execute_task ex_lib ex_env_no_spawn (str ''plan'') (str ''do it'') ex_root True False
             (str ''text'') ex_world = Some (Inr r, w') \<and>
           \<not> r_success r \<and> r_output r = [] \<and> r_error r = exn_str (Raised (str ''cannot spawn''))"
    by blast
  then show ?thesis using ex_prelude by auto
qed

lemma ex_plan_run:
  "\<exists>r fs. execute_task ex_lib ex_env (str ''plan'') (str ''do it'') ex_root True False (str ''text'')
       ex_world = Some (Inr r, spawn (ex_world\<lparr>files := ex_files_logdir\<rparr>) fs) \<and> r_success r"
proof -
  let ?log = "log_path ex_lib ex_env ex_root (JStr (str ''gemini'')) (str ''plan'')"
  let ?w1 = "ex_world\<lparr>files := ex_files_logdir\<rparr>"
  obtain fs0 where opened: "write_file (files ?w1) ?log [] = Inr fs0"
    using ex_open_plan_log by auto
  have load: "load_skill_instructions (files ?w1) (skill_path ex_root (str ''plan'')) =
      Inr (str ''Plan the work.'')"
    by (simp add: ex_plan_after_mkdir)
  have nonempty: "str ''Plan the work.'' \<noteq> []" by (simp add: str_def)
  from gemini_completes[OF load nonempty opened ex_child_exit] obtain out fs where
    "run_gemini_backend ex_env (str ''plan'') (str ''do it'') ex_root True ?log True ?w1 =
       Some (Inr (gemini_result 0 out), spawn ?w1 fs)" by blast
  then have "dispatch ex_env (JStr (str ''gemini'')) (str ''plan'') (str ''do it'')
      ex_root True ?log False ?w1 = Some (Inr (gemini_result 0 out), spawn ?w1 fs)"
    by (simp add: dispatch_def str_def)
  then show ?thesis
    unfolding execute_task_dispatches[OF ex_prelude]
    by (auto simp: summarize_def gemini_result_def)
qed

theorem log_file_exists_after_spawn_witness:
  "\<exists>res w'. execute_task ex_lib ex_env (str ''plan'') (str ''do it'') ex_root True False (str ''text'')
       ex_world = Some (res, w') \<and>
     spawned w' \<noteq> spawned ex_world \<and>
     exists (files w') (log_path ex_lib ex_env ex_root (JStr (str ''gemini'')) (str ''plan''))"
proof -
  from ex_plan_run obtain r fs where
    run: "execute_task ex_lib ex_env (str ''plan'') (str ''do it'') ex_root True False (str ''text'')
       ex_world = Some (Inr r, spawn (ex_world\<lparr>files := ex_files_logdir\<rparr>) fs)" by blast
  have more: "spawned (spawn (ex_world\<lparr>files := ex_files_logdir\<rparr>) fs) \<noteq> spawned ex_world"
    by simp
  from log_file_exists_after_spawn[OF run more] ex_prelude(1)[of ex_env]
  have "exists (files (spawn (ex_world\<lparr>files := ex_files_logdir\<rparr>) fs))
      (log_path ex_lib ex_env ex_root (JStr (str ''gemini'')) (str ''plan''))"
    by auto
  with run more show ?thesis by blast
qed

theorem at_most_one_subprocess_witness:
  "\<exists>r w'. execute_task ex_lib ex_env (str ''plan'') (str ''do it'') ex_root True False (str ''text'')
       ex_world = Some (Inr r, w') \<and> r_success r \<and> spawned w' = Suc (spawned ex_world)"
proof -
  from ex_plan_run obtain r fs where
    run: "execute_task ex_lib ex_env (str ''plan'') (str ''do it'') ex_root True False (str ''text'')
       ex_world = Some (Inr r, spawn (ex_world\<lparr>files := ex_files_logdir\<rparr>) fs)"
    and ok: "r_success r" by blast
  from at_most_one_subprocess[OF run] ok
  have "spawned (spawn (ex_world\<lparr>files := ex_files_logdir\<rparr>) fs) = Suc (spawned ex_world)"
    by blast
  with run ok show ?thesis by blast
qed





section \<open>The walk to the root\<close>

lemma level_0 [simp]: "level p 0 = p"
  by (simp add: level_def)

lemma level_Suc: "level p (Suc k) = parent (level p k)"
  by (simp add: level_def)

lemma level_parent: "level (parent p) k = level p (Suc k)"
  by (simp add: level_def funpow_swap1)

lemma level_fixed: "parent p = p \<Longrightarrow> level p k = p"
  by (induction k) (simp_all add: level_Suc)



lemma repo_root_loop_found:
  assumes "exists fs (agent_dir (level cur k))" and "k < n"
    and "\<forall>j<k. \<not> exists fs (agent_dir (level cur j))"
  shows "repo_root_loop fs n cur = Some (level cur k)"
  using assms
proof (induction n arbitrary: cur k)
  case 0
  then show ?case by simp
next
  case (Suc n)
  show ?case
  proof (cases k)
    case 0
    with Suc.prems show ?thesis by simp
  next
    case (Suc k')
    then have "0 < k" by simp
    with Suc.prems(3) have "\<not> exists fs (agent_dir (level cur 0))" by blast
    then have here: "\<not> exists fs (agent_dir cur)" by simp
    have moved: "parent cur \<noteq> cur"
    proof
      assume "parent cur = cur"
      then have "level cur k = cur" by (rule level_fixed)
      with Suc.prems(1) here show False by simp
    qed
    have "repo_root_loop fs n (parent cur) = Some (level (parent cur) k')"
    proof (rule Suc.IH)
      show "exists fs (agent_dir (level (parent cur) k'))"
        using Suc.prems(1) Suc by (simp add: level_parent)
      show "k' < n" using Suc.prems(2) Suc by simp
      show "\<forall>j<k'. \<not> exists fs (agent_dir (level (parent cur) j))"
      proof (intro allI impI)
        fix j assume "j < k'"
        then have "Suc j < k" using Suc by simp
        with Suc.prems(3) have "\<not> exists fs (agent_dir (level cur (Suc j)))" by blast
        then show "\<not> exists fs (agent_dir (level (parent cur) j))" by (simp add: level_parent)
      qed
    qed
    with here moved Suc show ?thesis by (simp add: level_parent)
  qed
qed

lemma repo_root_loop_not_found:
  assumes "\<forall>k<n. \<not> exists fs (agent_dir (level cur k))"
  shows "repo_root_loop fs n cur = None"
  using assms
proof (induction n arbitrary: cur)
  case 0
  then show ?case by simp
next
  case (Suc n)
  from Suc.prems have "\<not> exists fs (agent_dir (level cur 0))" by blast
  then have here: "\<not> exists fs (agent_dir cur)" by simp
  have "\<forall>k<n. \<not> exists fs (agent_dir (level (parent cur) k))"
  proof (intro allI impI)
    fix k assume "k < n"
    then have "Suc k < Suc n" by simp
    with Suc.prems have "\<not> exists fs (agent_dir (level cur (Suc k)))" by blast
    then show "\<not> exists fs (agent_dir (level (parent cur) k))" by (simp add: level_parent)
  qed
  then have "repo_root_loop fs n (parent cur) = None" by (rule Suc.IH)
  with here show ?case by simp
qed

lemma first_level:
  assumes "\<exists>k<n. P k"
  obtains k :: nat where "k < n" "P k" "\<forall>j<k. \<not> P j"
proof -
  from assms obtain m where m: "m < n" "P m" by blast
  define k where "k = (LEAST i. P i)"
  have holds: "P k" unfolding k_def using m(2) by (rule LeastI)
  have "k \<le> m" unfolding k_def using m(2) by (rule Least_le)
  with m(1) have below: "k < n" by simp
  have first: "\<forall>j<k. \<not> P j" unfolding k_def by (auto dest: not_less_Least)
  from below holds first show ?thesis by (rule that)
qed


text \<open>
  \<open>find_repo_root\<close> walks the same way, without the shortcut: it returns the first level
  that holds the marker directory (the directory, not the marker), and the working
  directory when none of the ten levels does.
\<close>

lemma find_repo_root_walk:
  "((\<exists>k<10. exists fs (agent_dir (level (resolve ev start) k))) \<longrightarrow>
      (\<exists>k<10. find_repo_root ev fs start = level (resolve ev start) k \<and>
              exists fs (agent_dir (level (resolve ev start) k)) \<and>
              (\<forall>j<k. \<not> exists fs (agent_dir (level (resolve ev start) j))))) \<and>
   ((\<forall>k<10. \<not> exists fs (agent_dir (level (resolve ev start) k))) \<longrightarrow>
      find_repo_root ev fs start = cwd ev)"
proof (intro conjI impI)
  assume "\<exists>k<10. exists fs (agent_dir (level (resolve ev start) k))"
  then obtain k where k: "k < 10" "exists fs (agent_dir (level (resolve ev start) k))"
    "\<forall>j<k. \<not> exists fs (agent_dir (level (resolve ev start) j))"
    by (rule first_level)
  from repo_root_loop_found[OF k(2) k(1) k(3)]
  have "find_repo_root ev fs start = level (resolve ev start) k"
    by (simp add: find_repo_root_def)
  with k show "\<exists>k<10. find_repo_root ev fs start = level (resolve ev start) k \<and>
              exists fs (agent_dir (level (resolve ev start) k)) \<and>
              (\<forall>j<k. \<not> exists fs (agent_dir (level (resolve ev start) j)))"
    by blast
next
  assume "\<forall>k<10. \<not> exists fs (agent_dir (level (resolve ev start) k))"
  from repo_root_loop_not_found[OF this]
  show "find_repo_root ev fs start = cwd ev"
    by (simp add: find_repo_root_def)
qed


end
